theory Spec2Isabelle
  imports Main "HOL-Library.Word"
begin

section \<open>Python values, type descriptors and errors\<close>

text \<open>
  The two modules under verification, \<^verbatim>\<open>pyignite/api/key_value.py\<close> and
  \<^verbatim>\<open>pyignite/api/cache_config.py\<close>, are the per-operation call sites of the thin
  client. Each function builds a query structure, serialises it with
  \<^verbatim>\<open>Query.from_python\<close>, sends it, parses the reply with \<^verbatim>\<open>Response.parse\<close> and
  wraps it in an \<^verbatim>\<open>APIResult\<close>.

  Python objects that travel through these functions: \<^verbatim>\<open>None\<close>, booleans, unbounded
  integers, strings (lists of Unicode code points), lists, tuples and dictionaries
  (association lists in insertion order).
\<close>

type_synonym byte = "8 word"

datatype pyval =
    PyNone
  | PyBool bool
  | PyInt int
  | PyStr "nat list"
  | PyList "pyval list"
  | PyTuple "pyval list"
  | PyDict "(pyval \<times> pyval) list"

text \<open>A \<^verbatim>\<open>str\<close> literal of the source, as code points.\<close>

definition py_str :: "string \<Rightarrow> nat list" where
  "py_str s = map of_char s"

text \<open>
  The type descriptors the two modules import from \<^verbatim>\<open>pyignite.datatypes\<close>
  (\<^verbatim>\<open>Int\<close>, \<^verbatim>\<open>Byte\<close>, ...), each with the suffix \<open>T\<close>; \<open>OtherT\<close> stands for any other
  descriptor (a caller's type hint, a cache property type).
\<close>

datatype ignite_type =
    IntT | ByteT | ShortT | LongT | BoolT | StringT | StringArrayT
  | MapT | AnyDataArrayT | AnyDataObjectT | PeekModesT | CacheConfigStructT
  | OtherT nat

text \<open>The operation codes of \<^verbatim>\<open>pyignite.queries.op_codes\<close>, by name.\<close>

datatype op_code =
    OP_CACHE_GET_CONFIGURATION
  | OP_CACHE_CREATE_WITH_NAME
  | OP_CACHE_GET_OR_CREATE_WITH_NAME
  | OP_CACHE_DESTROY
  | OP_CACHE_GET_NAMES
  | OP_CACHE_CREATE_WITH_CONFIGURATION
  | OP_CACHE_GET_OR_CREATE_WITH_CONFIGURATION
  | OP_CACHE_PUT
  | OP_CACHE_GET
  | OP_CACHE_GET_ALL
  | OP_CACHE_PUT_ALL
  | OP_CACHE_CONTAINS_KEY
  | OP_CACHE_CONTAINS_KEYS
  | OP_CACHE_GET_AND_PUT
  | OP_CACHE_GET_AND_REPLACE
  | OP_CACHE_GET_AND_REMOVE
  | OP_CACHE_PUT_IF_ABSENT
  | OP_CACHE_GET_AND_PUT_IF_ABSENT
  | OP_CACHE_REPLACE
  | OP_CACHE_REPLACE_IF_EQUALS
  | OP_CACHE_CLEAR
  | OP_CACHE_CLEAR_KEY
  | OP_CACHE_CLEAR_KEYS
  | OP_CACHE_REMOVE_KEY
  | OP_CACHE_REMOVE_IF_EQUALS
  | OP_CACHE_REMOVE_KEYS
  | OP_CACHE_REMOVE_ALL
  | OP_CACHE_GET_SIZE

text \<open>
  Every exception a call can end with is a value: the error kinds of the
  specification (section 7) and the two Python raises on a dictionary or \<^verbatim>\<open>None\<close>
  subscript.
\<close>

datatype error =
    EncodeError | DecodeError | UnknownPropertyError | KeyError | TypeError

text \<open>
  The parts of the protocol that the sources do not show are parameters of the model:
  the per-type encoders and decoders of \<^verbatim>\<open>pyignite.datatypes\<close>, the static table
  from property code to type, the numeric operation codes, and the value the random
  generator draws for an omitted query id. A decoder returns the value and the number
  of bytes it consumed.
\<close>

record env =
  type_enc :: "ignite_type \<Rightarrow> pyval \<Rightarrow> byte list option"
  type_dec :: "ignite_type \<Rightarrow> byte list \<Rightarrow> (pyval \<times> nat) option"
  prop_table :: "int \<Rightarrow> ignite_type option"
  op_value :: "op_code \<Rightarrow> int"
  random_query_id :: int

section \<open>Dictionaries\<close>

text \<open>
  A Python \<^verbatim>\<open>dict\<close> keeps insertion order; assigning to a key that is present
  replaces the value in place, assigning to a new key appends the entry.
\<close>

type_synonym ('k, 'v) dict = "('k \<times> 'v) list"

fun dict_set :: "('k, 'v) dict \<Rightarrow> 'k \<Rightarrow> 'v \<Rightarrow> ('k, 'v) dict" where
  "dict_set [] k v = [(k, v)]"
| "dict_set ((k', v') # d) k v =
     (if k' = k then (k', v) # d else (k', v') # dict_set d k v)"

definition dict_get :: "('k, 'v) dict \<Rightarrow> 'k \<Rightarrow> error + 'v" where
  "dict_get d k = (case map_of d k of None \<Rightarrow> Inl KeyError | Some v \<Rightarrow> Inr v)"



text \<open>Sequencing of fallible steps: an error ends the call.\<close>

fun ebind :: "error + 'a \<Rightarrow> ('a \<Rightarrow> error + 'b) \<Rightarrow> error + 'b" where
  "ebind (Inl e) f = Inl e"
| "ebind (Inr x) f = f x"

section \<open>Fixed-width little-endian integers\<close>

text \<open>
  Modelled from the spec: the integer layout of section 6 (\<open>all multi-byte integers
  are little-endian\<close>) and the overflow rule of section 7 (\<open>EncodeError\<close>); the codec
  itself lives in \<^verbatim>\<open>pyignite.queries\<close>, which is not among the sources.
\<close>

fun le_bytes :: "nat \<Rightarrow> int \<Rightarrow> byte list" where
  "le_bytes 0 x = []"
| "le_bytes (Suc n) x = word_of_int x # le_bytes n (x div 256)"

fun le_value :: "byte list \<Rightarrow> int" where
  "le_value [] = 0"
| "le_value (b # bs) = uint b + 256 * le_value bs"

definition fits :: "nat \<Rightarrow> int \<Rightarrow> bool" where
  "fits n x \<longleftrightarrow> - (2 ^ (8 * n - 1)) \<le> x \<and> x < 2 ^ (8 * n - 1)"

definition encode_int :: "nat \<Rightarrow> int \<Rightarrow> error + byte list" where
  "encode_int n x = (if fits n x then Inr (le_bytes n x) else Inl EncodeError)"

definition decode_int :: "byte list \<Rightarrow> int" where
  "decode_int bs =
     (let u = le_value bs; w = 8 * length bs
      in if u < 2 ^ (w - 1) then u else u - 2 ^ w)"

section \<open>Cache identifiers\<close>

text \<open>
  Modelled from the spec: \<^verbatim>\<open>cache_id\<close> of \<^verbatim>\<open>pyignite.utils\<close> and the string hash
  behind it, which are not among the sources. Section 4.1: a polynomial hash that
  accumulates \<open>h = 31 * h + code_unit\<close> over the UTF-16 code units of the name with
  32-bit wrap-around, seeded with 0; a caller that already holds a numeric identifier
  skips the hash. A code point above the basic plane is two code units (a surrogate
  pair). The identifier is the signed reading of the 32-bit result.
\<close>

definition utf16_units :: "nat \<Rightarrow> nat list" where
  "utf16_units c =
     (if c < 0x10000 then [c]
      else [0xD800 + (c - 0x10000) div 0x400, 0xDC00 + (c - 0x10000) mod 0x400])"

definition hashcode :: "nat list \<Rightarrow> 32 word" where
  "hashcode s = foldl (\<lambda>h u. 31 * h + of_nat u) 0 (concat (map utf16_units s))"

text \<open>The \<^verbatim>\<open>cache: Union[str, int]\<close> argument of every operation.\<close>

datatype cache_ref = CacheName "nat list" | CacheId int

fun cache_id :: "cache_ref \<Rightarrow> int" where
  "cache_id (CacheName s) = sint (hashcode s)"
| "cache_id (CacheId i) = i"

section \<open>Queries and request frames\<close>

type_synonym schema = "(string \<times> ignite_type) list"

type_synonym 'a result = "error + 'a"

text \<open>
  A query structure as the call sites build it: the operation code of the query class,
  the ordered field list and the \<^verbatim>\<open>query_id\<close> keyword (\<^verbatim>\<open>None\<close> when omitted).
\<close>

record query =
  op_code :: op_code
  following :: schema
  query_id :: "int option"

text \<open>
  An optional type hint (\<^verbatim>\<open>key_hint=None\<close>); \<^verbatim>\<open>hint or default\<close>: a hint, when
  given, replaces the default descriptor.
\<close>

type_synonym hint = "ignite_type option"

fun hint_or :: "hint \<Rightarrow> ignite_type \<Rightarrow> ignite_type" where
  "hint_or None d = d"
| "hint_or (Some t) d = t"

text \<open>
  Modelled from the spec: \<^verbatim>\<open>Query.from_python\<close> of \<^verbatim>\<open>pyignite.queries\<close>, not among
  the sources. Sections 4.3 and 6: the body is the encoding of every field of the
  schema in declared order, the value of a field taken from the dictionary by the
  field's name; the frame is \<open>[i32 length][i16 op_code][i64 query_id][body]\<close>, where
  the length counts every byte after itself and is computed last. An omitted query id
  is drawn from the generator.
\<close>

fun encode_fields :: "env \<Rightarrow> schema \<Rightarrow> (string, pyval) dict \<Rightarrow> byte list result" where
  "encode_fields e [] values = Inr []"
| "encode_fields e ((name, t) # fs) values =
     ebind (dict_get values name) (\<lambda>v.
       case type_enc e t v of
         None \<Rightarrow> Inl EncodeError
       | Some bs \<Rightarrow> ebind (encode_fields e fs values) (\<lambda>rest. Inr (bs @ rest)))"

definition from_python :: "env \<Rightarrow> query \<Rightarrow> (string, pyval) dict \<Rightarrow> byte list result" where
  "from_python e q values =
     ebind (encode_fields e (following q) values) (\<lambda>body.
     ebind (encode_int 2 (op_value e (op_code q))) (\<lambda>op.
     ebind (encode_int 8 (case query_id q of None \<Rightarrow> random_query_id e | Some i \<Rightarrow> i)) (\<lambda>qid.
     ebind (encode_int 4 (int (2 + 8 + length body))) (\<lambda>len.
       Inr (len @ op @ qid @ body)))))"

section \<open>The connection\<close>

text \<open>
  The transport is a collaborator with a blocking send and receive. Its state is the
  log of buffers sent and the bytes the peer will deliver; reading past the delivered
  bytes ends the call with an error.
\<close>

record connection =
  sent :: "byte list list"
  incoming :: "byte list"

definition send :: "connection \<Rightarrow> byte list \<Rightarrow> connection" where
  "send conn buf = conn\<lparr>sent := sent conn @ [buf]\<rparr>"

definition recv :: "connection \<Rightarrow> nat \<Rightarrow> (byte list \<times> connection) result" where
  "recv conn n =
     (if length (incoming conn) < n then Inl DecodeError
      else Inr (take n (incoming conn), conn\<lparr>incoming := drop n (incoming conn)\<rparr>))"

section \<open>Response frames and results\<close>

text \<open>The parsed response: header, then the error text or the decoded fields.\<close>

record response =
  frame_length :: int
  response_query_id :: int
  status_code :: int
  error_message :: "byte list option"
  field_values :: "(string, pyval) dict"

fun decode_fields ::
  "env \<Rightarrow> schema \<Rightarrow> byte list \<Rightarrow> ((string, pyval) dict \<times> byte list) result" where
  "decode_fields e [] bs = Inr ([], bs)"
| "decode_fields e ((name, t) # fs) bs =
     (case type_dec e t bs of
        None \<Rightarrow> Inl DecodeError
      | Some (v, n) \<Rightarrow>
          if length bs < n then Inl DecodeError
          else ebind (decode_fields e fs (drop n bs)) (\<lambda>(vals, rest).
                 Inr ((name, v) # vals, rest)))"

text \<open>
  Modelled from the spec: \<^verbatim>\<open>Response.parse\<close> of \<^verbatim>\<open>pyignite.queries\<close>, not among the
  sources. Sections 4.3 and 6: the frame is \<open>[i32 length][i64 query_id][i32 status]\<close>
  followed, when the status is not 0, by \<open>[i32 str_len][utf8 bytes]\<close>, the error text
  (kept here as its UTF-8 bytes), after which the parser stops; and, when the status is
  0, by the fields of the response schema in declared order. Trailing bytes after the
  last field and a buffer that ends early are decode errors.
\<close>

definition parse :: "env \<Rightarrow> schema \<Rightarrow> connection \<Rightarrow> (response \<times> connection) result" where
  "parse e fs conn =
     ebind (recv conn 4) (\<lambda>(lb, c1).
       let n = decode_int lb in
       if n < 12 then Inl DecodeError
       else ebind (recv c1 (nat n)) (\<lambda>(payload, c2).
         let qid = decode_int (take 8 payload);
             st = decode_int (take 4 (drop 8 payload));
             body = drop 12 payload
         in if st \<noteq> 0 then
              (if length body < 4 then Inl DecodeError
               else let m = decode_int (take 4 body)
                    in if m < 0 \<or> int (length body) - 4 < m then Inl DecodeError
                       else Inr (\<lparr>frame_length = n, response_query_id = qid, status_code = st,
                                  error_message = Some (take (nat m) (drop 4 body)),
                                  field_values = []\<rparr>, c2))
            else ebind (decode_fields e fs body) (\<lambda>(vals, rest).
                   if rest \<noteq> [] then Inl DecodeError
                   else Inr (\<lparr>frame_length = n, response_query_id = qid, status_code = st,
                              error_message = None, field_values = vals\<rparr>, c2))))"

text \<open>
  Modelled from the spec: \<^verbatim>\<open>Response.to_python\<close>, not among the sources. Section 4.5:
  the decoded fields are available by field name; section 8: a response with no
  declared field yields no value.
\<close>

definition to_python :: "response \<Rightarrow> pyval" where
  "to_python r =
     (if field_values r = [] then PyNone
      else PyDict (map (\<lambda>(name, v). (PyStr (py_str name), v)) (field_values r)))"

text \<open>
  Modelled from the spec: \<^verbatim>\<open>APIResult\<close> of \<^verbatim>\<open>pyignite/api/result.py\<close>, not among the
  sources. Sections 3 and 4.5: status, optional error text, optional decoded value;
  built once from a response, with the value absent (\<^verbatim>\<open>None\<close>) until a call site
  assigns it.
\<close>

record api_result =
  status :: int
  message :: "byte list option"
  result_value :: pyval

definition APIResult :: "response \<Rightarrow> api_result" where
  "APIResult r = \<lparr>status = status_code r, message = error_message r, result_value = PyNone\<rparr>"

text \<open>
  The five lines every call site repeats: serialise the query, send the buffer, then
  parse the reply against the response schema.
\<close>

definition exchange ::
  "env \<Rightarrow> connection \<Rightarrow> query \<Rightarrow> (string, pyval) dict \<Rightarrow> schema \<Rightarrow>
   (response \<times> connection) result" where
  "exchange e conn query_struct values response_struct =
     ebind (from_python e query_struct values) (\<lambda>send_buffer.
       parse e response_struct (send conn send_buffer))"

section \<open>Cache configuration operations (\<^verbatim>\<open>cache_config.py\<close>)\<close>

definition cache_get_configuration_query ::
  "cache_ref \<Rightarrow> int \<Rightarrow> int option \<Rightarrow>
   query \<times> (string, pyval) dict" where
  "cache_get_configuration_query cache flags qid =
     (\<lparr>op_code = OP_CACHE_GET_CONFIGURATION,
       following = [(''hash_code'', IntT), (''flags'', ByteT)],
       query_id = qid\<rparr>,
      [(''hash_code'', PyInt (cache_id cache)), (''flags'', PyInt flags)])"










text \<open>
  Modelled from the spec: \<^verbatim>\<open>prop_map\<close> of \<^verbatim>\<open>pyignite.datatypes.cache_properties\<close>,
  not among the sources. Section 4.4: the type of a property is resolved from the
  static table; a code with no entry fails with an \<open>UnknownPropertyError\<close>.
\<close>

definition prop_map :: "env \<Rightarrow> int \<Rightarrow> ignite_type result" where
  "prop_map e code =
     (case prop_table e code of None \<Rightarrow> Inl UnknownPropertyError | Some t \<Rightarrow> Inr t)"

text \<open>\<^verbatim>\<open>'property_{}'.format(i)\<close>: the index in decimal.\<close>

definition digit :: "nat \<Rightarrow> char" where
  "digit d = char_of (48 + d)"

fun decimal :: "nat \<Rightarrow> string" where
  "decimal n = (if n < 10 then [digit n] else decimal (n div 10) @ [digit (n mod 10)])"

declare decimal.simps [simp del]

definition property_name :: "nat \<Rightarrow> string" where
  "property_name i = ''property_'' @ decimal i"

text \<open>A \<^verbatim>\<open>for\<close> loop over a list whose body may raise: the first error ends it.\<close>

fun for_each :: "'a list \<Rightarrow> ('a \<Rightarrow> 's \<Rightarrow> 's result) \<Rightarrow> 's \<Rightarrow> 's result" where
  "for_each [] body s = Inr s"
| "for_each (x # xs) body s = ebind (body x s) (for_each xs body)"

text \<open>
  \<^verbatim>\<open>cache_props\<close> is the list of items of the dictionary, in the order
  \<^verbatim>\<open>cache_props.items()\<close> yields them: insertion order.
\<close>

definition cache_create_with_config_query ::
  "env \<Rightarrow> (int \<times> pyval) list \<Rightarrow> int option \<Rightarrow>
   (query \<times> (string, pyval) dict) result" where
  "cache_create_with_config_query e cache_props qid =
     ebind
       (for_each (enumerate 0 cache_props)
          (\<lambda>(i, prop_item) (prop_types, prop_values).
             case prop_item of (prop_code, prop_value) \<Rightarrow>
               let prop_name = property_name i in
               ebind (prop_map e prop_code) (\<lambda>t.
                 Inr (dict_set prop_types prop_name t,
                      dict_set prop_values prop_name prop_value)))
          ([], []))
       (\<lambda>(prop_types, prop_values).
          let prop_values =
                dict_set prop_values ''param_count'' (PyInt (int (length cache_props)))
          in Inr (\<lparr>op_code = OP_CACHE_CREATE_WITH_CONFIGURATION,
                   following = [(''param_count'', ShortT)] @ prop_types,
                   query_id = qid\<rparr>,
                  prop_values))"

definition cache_create_with_config ::
  "env \<Rightarrow> connection \<Rightarrow> (int \<times> pyval) list \<Rightarrow> int option \<Rightarrow>
   (api_result \<times> connection) result" where
  "cache_create_with_config e conn cache_props qid =
     ebind (cache_create_with_config_query e cache_props qid)
       (\<lambda>(query_struct, values).
     ebind (exchange e conn query_struct values [])
       (\<lambda>(response, conn').
        let result = APIResult response in
        Inr (result, conn')))"

definition cache_get_or_create_with_config_query ::
  "env \<Rightarrow> (int \<times> pyval) list \<Rightarrow> int option \<Rightarrow>
   (query \<times> (string, pyval) dict) result" where
  "cache_get_or_create_with_config_query e cache_props qid =
     ebind
       (for_each (enumerate 0 cache_props)
          (\<lambda>(i, prop_item) (prop_types, prop_values).
             case prop_item of (prop_code, prop_value) \<Rightarrow>
               let prop_name = property_name i in
               ebind (prop_map e prop_code) (\<lambda>t.
                 Inr (dict_set prop_types prop_name t,
                      dict_set prop_values prop_name prop_value)))
          ([], []))
       (\<lambda>(prop_types, prop_values).
          let prop_values =
                dict_set prop_values ''param_count'' (PyInt (int (length cache_props)))
          in Inr (\<lparr>op_code = OP_CACHE_GET_OR_CREATE_WITH_CONFIGURATION,
                   following = [(''param_count'', ShortT)] @ prop_types,
                   query_id = qid\<rparr>,
                  prop_values))"

definition cache_get_or_create_with_config ::
  "env \<Rightarrow> connection \<Rightarrow> (int \<times> pyval) list \<Rightarrow> int option \<Rightarrow>
   (api_result \<times> connection) result" where
  "cache_get_or_create_with_config e conn cache_props qid =
     ebind (cache_get_or_create_with_config_query e cache_props qid)
       (\<lambda>(query_struct, values).
     ebind (exchange e conn query_struct values [])
       (\<lambda>(response, conn').
        let result = APIResult response in
        Inr (result, conn')))"

text \<open>
  The schema and the values that the loop is shown to build from the items (every
  code taken to be in the table).
\<close>

definition property_fields :: "env \<Rightarrow> (int \<times> pyval) list \<Rightarrow> schema" where
  "property_fields e props =
     map (\<lambda>(j, (c, v)). (property_name j, the (prop_table e c))) (enumerate 0 props)"

definition property_values :: "(int \<times> pyval) list \<Rightarrow> (string, pyval) dict" where
  "property_values props = map (\<lambda>(j, (c, v)). (property_name j, v)) (enumerate 0 props)"

section \<open>Key-value operations (\<^verbatim>\<open>key_value.py\<close>)\<close>

text \<open>
  \<^verbatim>\<open>isinstance(peek_modes, (list, tuple))\<close> and \<^verbatim>\<open>peek_modes == 0\<close>: Python's
  equality with the integer 0 holds for the integer 0 and for \<^verbatim>\<open>False\<close>.
\<close>

fun isinstance_list_tuple :: "pyval \<Rightarrow> bool" where
  "isinstance_list_tuple (PyList xs) = True"
| "isinstance_list_tuple (PyTuple xs) = True"
| "isinstance_list_tuple v = False"

fun py_eq_zero :: "pyval \<Rightarrow> bool" where
  "py_eq_zero (PyInt i) = (i = 0)"
| "py_eq_zero (PyBool b) = (\<not> b)"
| "py_eq_zero v = False"

definition cache_put_query ::
  "cache_ref \<Rightarrow> pyval \<Rightarrow> pyval \<Rightarrow> hint \<Rightarrow>
   hint \<Rightarrow> bool \<Rightarrow> int option \<Rightarrow>
   query \<times> (string, pyval) dict" where
  "cache_put_query cache key value key_hint value_hint binary qid =
     (\<lparr>op_code = OP_CACHE_PUT,
       following = [(''hash_code'', IntT),
                   (''flag'', ByteT),
                   (''key'', hint_or key_hint AnyDataObjectT),
                   (''value'', hint_or value_hint AnyDataObjectT)],
       query_id = qid\<rparr>,
      [(''hash_code'', PyInt (cache_id cache)),
       (''flag'', PyInt (if binary then 1 else 0)),
       (''key'', key),
       (''value'', value)])"

definition cache_put ::
  "env \<Rightarrow> connection \<Rightarrow> cache_ref \<Rightarrow>
   pyval \<Rightarrow> pyval \<Rightarrow> hint \<Rightarrow> hint \<Rightarrow>
   bool \<Rightarrow> int option \<Rightarrow> (api_result \<times> connection) result" where
  "cache_put e conn cache key value key_hint value_hint binary qid =
     (case cache_put_query cache key value key_hint value_hint binary qid
      of (query_struct, values) \<Rightarrow>
      ebind (exchange e conn query_struct values [])
        (\<lambda>(response, conn').
        let result = APIResult response in
        if status result \<noteq> 0 then Inr (result, conn')
        else Inr (result\<lparr>result_value := to_python response\<rparr>, conn')))"

definition cache_get_query ::
  "cache_ref \<Rightarrow> pyval \<Rightarrow> hint \<Rightarrow> bool \<Rightarrow>
   int option \<Rightarrow> query \<times> (string, pyval) dict" where
  "cache_get_query cache key key_hint binary qid =
     (\<lparr>op_code = OP_CACHE_GET,
       following = [(''hash_code'', IntT),
                   (''flag'', ByteT),
                   (''key'', hint_or key_hint AnyDataObjectT)],
       query_id = qid\<rparr>,
      [(''hash_code'', PyInt (cache_id cache)),
       (''flag'', PyInt (if binary then 1 else 0)),
       (''key'', key)])"


definition cache_get_all_query ::
  "cache_ref \<Rightarrow> pyval \<Rightarrow> bool \<Rightarrow>
   int option \<Rightarrow> query \<times> (string, pyval) dict" where
  "cache_get_all_query cache keys binary qid =
     (\<lparr>op_code = OP_CACHE_GET_ALL,
       following = [(''hash_code'', IntT),
                   (''flag'', ByteT),
                   (''keys'', AnyDataArrayT)],
       query_id = qid\<rparr>,
      [(''hash_code'', PyInt (cache_id cache)),
       (''flag'', PyInt (if binary then 1 else 0)),
       (''keys'', keys)])"


definition cache_put_all_query ::
  "cache_ref \<Rightarrow> pyval \<Rightarrow> bool \<Rightarrow>
   int option \<Rightarrow> query \<times> (string, pyval) dict" where
  "cache_put_all_query cache pairs binary qid =
     (\<lparr>op_code = OP_CACHE_PUT_ALL,
       following = [(''hash_code'', IntT), (''flag'', ByteT), (''data'', MapT)],
       query_id = qid\<rparr>,
      [(''hash_code'', PyInt (cache_id cache)),
       (''flag'', PyInt (if binary then 1 else 0)),
       (''data'', pairs)])"


definition cache_contains_key_query ::
  "cache_ref \<Rightarrow> pyval \<Rightarrow> hint \<Rightarrow> bool \<Rightarrow>
   int option \<Rightarrow> query \<times> (string, pyval) dict" where
  "cache_contains_key_query cache key key_hint binary qid =
     (\<lparr>op_code = OP_CACHE_CONTAINS_KEY,
       following = [(''hash_code'', IntT),
                   (''flag'', ByteT),
                   (''key'', hint_or key_hint AnyDataObjectT)],
       query_id = qid\<rparr>,
      [(''hash_code'', PyInt (cache_id cache)),
       (''flag'', PyInt (if binary then 1 else 0)),
       (''key'', key)])"


definition cache_contains_keys_query ::
  "cache_ref \<Rightarrow> pyval \<Rightarrow> bool \<Rightarrow>
   int option \<Rightarrow> query \<times> (string, pyval) dict" where
  "cache_contains_keys_query cache keys binary qid =
     (\<lparr>op_code = OP_CACHE_CONTAINS_KEYS,
       following = [(''hash_code'', IntT),
                   (''flag'', ByteT),
                   (''keys'', AnyDataArrayT)],
       query_id = qid\<rparr>,
      [(''hash_code'', PyInt (cache_id cache)),
       (''flag'', PyInt (if binary then 1 else 0)),
       (''keys'', keys)])"


definition cache_get_and_put_query ::
  "cache_ref \<Rightarrow> pyval \<Rightarrow> pyval \<Rightarrow> hint \<Rightarrow>
   hint \<Rightarrow> bool \<Rightarrow> int option \<Rightarrow>
   query \<times> (string, pyval) dict" where
  "cache_get_and_put_query cache key value key_hint value_hint binary qid =
     (\<lparr>op_code = OP_CACHE_GET_AND_PUT,
       following = [(''hash_code'', IntT),
                   (''flag'', ByteT),
                   (''key'', hint_or key_hint AnyDataObjectT),
                   (''value'', hint_or value_hint AnyDataObjectT)],
       query_id = qid\<rparr>,
      [(''hash_code'', PyInt (cache_id cache)),
       (''flag'', PyInt (if binary then 1 else 0)),
       (''key'', key),
       (''value'', value)])"


definition cache_get_and_replace_query ::
  "cache_ref \<Rightarrow> pyval \<Rightarrow> pyval \<Rightarrow> hint \<Rightarrow>
   hint \<Rightarrow> bool \<Rightarrow> int option \<Rightarrow>
   query \<times> (string, pyval) dict" where
  "cache_get_and_replace_query cache key value key_hint value_hint binary qid =
     (\<lparr>op_code = OP_CACHE_GET_AND_REPLACE,
       following = [(''hash_code'', IntT),
                   (''flag'', ByteT),
                   (''key'', hint_or key_hint AnyDataObjectT),
                   (''value'', hint_or value_hint AnyDataObjectT)],
       query_id = qid\<rparr>,
      [(''hash_code'', PyInt (cache_id cache)),
       (''flag'', PyInt (if binary then 1 else 0)),
       (''key'', key),
       (''value'', value)])"


definition cache_get_and_remove_query ::
  "cache_ref \<Rightarrow> pyval \<Rightarrow> hint \<Rightarrow> bool \<Rightarrow>
   int option \<Rightarrow> query \<times> (string, pyval) dict" where
  "cache_get_and_remove_query cache key key_hint binary qid =
     (\<lparr>op_code = OP_CACHE_GET_AND_REMOVE,
       following = [(''hash_code'', IntT),
                   (''flag'', ByteT),
                   (''key'', hint_or key_hint AnyDataObjectT)],
       query_id = qid\<rparr>,
      [(''hash_code'', PyInt (cache_id cache)),
       (''flag'', PyInt (if binary then 1 else 0)),
       (''key'', key)])"


definition cache_put_if_absent_query ::
  "cache_ref \<Rightarrow> pyval \<Rightarrow> pyval \<Rightarrow> hint \<Rightarrow>
   hint \<Rightarrow> bool \<Rightarrow> int option \<Rightarrow>
   query \<times> (string, pyval) dict" where
  "cache_put_if_absent_query cache key value key_hint value_hint binary qid =
     (\<lparr>op_code = OP_CACHE_PUT_IF_ABSENT,
       following = [(''hash_code'', IntT),
                   (''flag'', ByteT),
                   (''key'', hint_or key_hint AnyDataObjectT),
                   (''value'', hint_or value_hint AnyDataObjectT)],
       query_id = qid\<rparr>,
      [(''hash_code'', PyInt (cache_id cache)),
       (''flag'', PyInt (if binary then 1 else 0)),
       (''key'', key),
       (''value'', value)])"


definition cache_get_and_put_if_absent_query ::
  "cache_ref \<Rightarrow> pyval \<Rightarrow> pyval \<Rightarrow> hint \<Rightarrow>
   hint \<Rightarrow> bool \<Rightarrow> int option \<Rightarrow>
   query \<times> (string, pyval) dict" where
  "cache_get_and_put_if_absent_query cache key value key_hint value_hint binary qid =
     (\<lparr>op_code = OP_CACHE_GET_AND_PUT_IF_ABSENT,
       following = [(''hash_code'', IntT),
                   (''flag'', ByteT),
                   (''key'', hint_or key_hint AnyDataObjectT),
                   (''value'', hint_or value_hint AnyDataObjectT)],
       query_id = qid\<rparr>,
      [(''hash_code'', PyInt (cache_id cache)),
       (''flag'', PyInt (if binary then 1 else 0)),
       (''key'', key),
       (''value'', value)])"


definition cache_replace_query ::
  "cache_ref \<Rightarrow> pyval \<Rightarrow> pyval \<Rightarrow> hint \<Rightarrow>
   hint \<Rightarrow> bool \<Rightarrow> int option \<Rightarrow>
   query \<times> (string, pyval) dict" where
  "cache_replace_query cache key value key_hint value_hint binary qid =
     (\<lparr>op_code = OP_CACHE_REPLACE,
       following = [(''hash_code'', IntT),
                   (''flag'', ByteT),
                   (''key'', hint_or key_hint AnyDataObjectT),
                   (''value'', hint_or value_hint AnyDataObjectT)],
       query_id = qid\<rparr>,
      [(''hash_code'', PyInt (cache_id cache)),
       (''flag'', PyInt (if binary then 1 else 0)),
       (''key'', key),
       (''value'', value)])"


definition cache_replace_if_equals_query ::
  "cache_ref \<Rightarrow> pyval \<Rightarrow> pyval \<Rightarrow> pyval \<Rightarrow>
   hint \<Rightarrow> hint \<Rightarrow> hint \<Rightarrow> bool \<Rightarrow>
   int option \<Rightarrow> query \<times> (string, pyval) dict" where
  "cache_replace_if_equals_query cache key sample value key_hint sample_hint value_hint binary qid =
     (\<lparr>op_code = OP_CACHE_REPLACE_IF_EQUALS,
       following = [(''hash_code'', IntT),
                   (''flag'', ByteT),
                   (''key'', hint_or key_hint AnyDataObjectT),
                   (''sample'', hint_or sample_hint AnyDataObjectT),
                   (''value'', hint_or value_hint AnyDataObjectT)],
       query_id = qid\<rparr>,
      [(''hash_code'', PyInt (cache_id cache)),
       (''flag'', PyInt (if binary then 1 else 0)),
       (''key'', key),
       (''sample'', sample),
       (''value'', value)])"


definition cache_clear_query ::
  "cache_ref \<Rightarrow> bool \<Rightarrow> int option \<Rightarrow>
   query \<times> (string, pyval) dict" where
  "cache_clear_query cache binary qid =
     (\<lparr>op_code = OP_CACHE_CLEAR,
       following = [(''hash_code'', IntT), (''flag'', ByteT)],
       query_id = qid\<rparr>,
      [(''hash_code'', PyInt (cache_id cache)),
       (''flag'', PyInt (if binary then 1 else 0))])"


definition cache_clear_key_query ::
  "cache_ref \<Rightarrow> pyval \<Rightarrow> hint \<Rightarrow> bool \<Rightarrow>
   int option \<Rightarrow> query \<times> (string, pyval) dict" where
  "cache_clear_key_query cache key key_hint binary qid =
     (\<lparr>op_code = OP_CACHE_CLEAR_KEY,
       following = [(''hash_code'', IntT),
                   (''flag'', ByteT),
                   (''key'', hint_or key_hint AnyDataObjectT)],
       query_id = qid\<rparr>,
      [(''hash_code'', PyInt (cache_id cache)),
       (''flag'', PyInt (if binary then 1 else 0)),
       (''key'', key)])"


definition cache_clear_keys_query ::
  "cache_ref \<Rightarrow> pyval \<Rightarrow> bool \<Rightarrow>
   int option \<Rightarrow> query \<times> (string, pyval) dict" where
  "cache_clear_keys_query cache keys binary qid =
     (\<lparr>op_code = OP_CACHE_CLEAR_KEYS,
       following = [(''hash_code'', IntT),
                   (''flag'', ByteT),
                   (''keys'', AnyDataArrayT)],
       query_id = qid\<rparr>,
      [(''hash_code'', PyInt (cache_id cache)),
       (''flag'', PyInt (if binary then 1 else 0)),
       (''keys'', keys)])"


definition cache_remove_key_query ::
  "cache_ref \<Rightarrow> pyval \<Rightarrow> hint \<Rightarrow> bool \<Rightarrow>
   int option \<Rightarrow> query \<times> (string, pyval) dict" where
  "cache_remove_key_query cache key key_hint binary qid =
     (\<lparr>op_code = OP_CACHE_REMOVE_KEY,
       following = [(''hash_code'', IntT),
                   (''flag'', ByteT),
                   (''key'', hint_or key_hint AnyDataObjectT)],
       query_id = qid\<rparr>,
      [(''hash_code'', PyInt (cache_id cache)),
       (''flag'', PyInt (if binary then 1 else 0)),
       (''key'', key)])"


definition cache_remove_if_equals_query ::
  "cache_ref \<Rightarrow> pyval \<Rightarrow> pyval \<Rightarrow> hint \<Rightarrow>
   hint \<Rightarrow> bool \<Rightarrow> int option \<Rightarrow>
   query \<times> (string, pyval) dict" where
  "cache_remove_if_equals_query cache key sample key_hint sample_hint binary qid =
     (\<lparr>op_code = OP_CACHE_REMOVE_IF_EQUALS,
       following = [(''hash_code'', IntT),
                   (''flag'', ByteT),
                   (''key'', hint_or key_hint AnyDataObjectT),
                   (''sample'', hint_or sample_hint AnyDataObjectT)],
       query_id = qid\<rparr>,
      [(''hash_code'', PyInt (cache_id cache)),
       (''flag'', PyInt (if binary then 1 else 0)),
       (''key'', key),
       (''sample'', sample)])"


definition cache_remove_keys_query ::
  "cache_ref \<Rightarrow> pyval \<Rightarrow> bool \<Rightarrow>
   int option \<Rightarrow> query \<times> (string, pyval) dict" where
  "cache_remove_keys_query cache keys binary qid =
     (\<lparr>op_code = OP_CACHE_REMOVE_KEYS,
       following = [(''hash_code'', IntT),
                   (''flag'', ByteT),
                   (''keys'', AnyDataArrayT)],
       query_id = qid\<rparr>,
      [(''hash_code'', PyInt (cache_id cache)),
       (''flag'', PyInt (if binary then 1 else 0)),
       (''keys'', keys)])"


definition cache_remove_all_query ::
  "cache_ref \<Rightarrow> bool \<Rightarrow> int option \<Rightarrow>
   query \<times> (string, pyval) dict" where
  "cache_remove_all_query cache binary qid =
     (\<lparr>op_code = OP_CACHE_REMOVE_ALL,
       following = [(''hash_code'', IntT), (''flag'', ByteT)],
       query_id = qid\<rparr>,
      [(''hash_code'', PyInt (cache_id cache)),
       (''flag'', PyInt (if binary then 1 else 0))])"


definition cache_get_size_query ::
  "cache_ref \<Rightarrow> pyval \<Rightarrow> bool \<Rightarrow>
   int option \<Rightarrow> query \<times> (string, pyval) dict" where
  "cache_get_size_query cache peek_modes binary qid =
     (let peek_modes =
        (if \<not> isinstance_list_tuple peek_modes
         then (if py_eq_zero peek_modes then PyList [] else PyList [peek_modes])
         else peek_modes) in
     (\<lparr>op_code = OP_CACHE_GET_SIZE,
       following = [(''hash_code'', IntT),
                   (''flag'', ByteT),
                   (''peek_modes'', PeekModesT)],
       query_id = qid\<rparr>,
      [(''hash_code'', PyInt (cache_id cache)),
       (''flag'', PyInt (if binary then 1 else 0)),
       (''peek_modes'', peek_modes)]))"


section \<open>Every operation as one call\<close>

text \<open>
  One constructor per function of \<^verbatim>\<open>key_value.py\<close>, carrying its arguments (the
  connection apart), so that a statement about every key-value operation is a
  statement about every \<open>kv_call\<close>.
\<close>

datatype kv_call =
    CachePut cache_ref pyval pyval hint hint bool "int option"
  | CacheGet cache_ref pyval hint bool "int option"
  | CacheGetAll cache_ref pyval bool "int option"
  | CachePutAll cache_ref pyval bool "int option"
  | CacheContainsKey cache_ref pyval hint bool "int option"
  | CacheContainsKeys cache_ref pyval bool "int option"
  | CacheGetAndPut cache_ref pyval pyval hint hint bool "int option"
  | CacheGetAndReplace cache_ref pyval pyval hint hint bool "int option"
  | CacheGetAndRemove cache_ref pyval hint bool "int option"
  | CachePutIfAbsent cache_ref pyval pyval hint hint bool "int option"
  | CacheGetAndPutIfAbsent cache_ref pyval pyval hint hint bool "int option"
  | CacheReplace cache_ref pyval pyval hint hint bool "int option"
  | CacheReplaceIfEquals cache_ref pyval pyval pyval hint hint hint bool "int option"
  | CacheClear cache_ref bool "int option"
  | CacheClearKey cache_ref pyval hint bool "int option"
  | CacheClearKeys cache_ref pyval bool "int option"
  | CacheRemoveKey cache_ref pyval hint bool "int option"
  | CacheRemoveIfEquals cache_ref pyval pyval hint hint bool "int option"
  | CacheRemoveKeys cache_ref pyval bool "int option"
  | CacheRemoveAll cache_ref bool "int option"
  | CacheGetSize cache_ref pyval bool "int option"

fun kv_query :: "kv_call \<Rightarrow> query \<times> (string, pyval) dict" where
  "kv_query (CachePut cache key value key_hint value_hint binary qid) =
     cache_put_query cache key value key_hint value_hint binary qid"
| "kv_query (CacheGet cache key key_hint binary qid) =
     cache_get_query cache key key_hint binary qid"
| "kv_query (CacheGetAll cache keys binary qid) =
     cache_get_all_query cache keys binary qid"
| "kv_query (CachePutAll cache pairs binary qid) =
     cache_put_all_query cache pairs binary qid"
| "kv_query (CacheContainsKey cache key key_hint binary qid) =
     cache_contains_key_query cache key key_hint binary qid"
| "kv_query (CacheContainsKeys cache keys binary qid) =
     cache_contains_keys_query cache keys binary qid"
| "kv_query (CacheGetAndPut cache key value key_hint value_hint binary qid) =
     cache_get_and_put_query cache key value key_hint value_hint binary qid"
| "kv_query (CacheGetAndReplace cache key value key_hint value_hint binary qid) =
     cache_get_and_replace_query cache key value key_hint value_hint binary qid"
| "kv_query (CacheGetAndRemove cache key key_hint binary qid) =
     cache_get_and_remove_query cache key key_hint binary qid"
| "kv_query (CachePutIfAbsent cache key value key_hint value_hint binary qid) =
     cache_put_if_absent_query cache key value key_hint value_hint binary qid"
| "kv_query (CacheGetAndPutIfAbsent cache key value key_hint value_hint binary qid) =
     cache_get_and_put_if_absent_query cache key value key_hint value_hint binary qid"
| "kv_query (CacheReplace cache key value key_hint value_hint binary qid) =
     cache_replace_query cache key value key_hint value_hint binary qid"
| "kv_query (CacheReplaceIfEquals cache key sample value key_hint sample_hint value_hint binary qid) =
     cache_replace_if_equals_query cache key sample value key_hint sample_hint value_hint binary qid"
| "kv_query (CacheClear cache binary qid) =
     cache_clear_query cache binary qid"
| "kv_query (CacheClearKey cache key key_hint binary qid) =
     cache_clear_key_query cache key key_hint binary qid"
| "kv_query (CacheClearKeys cache keys binary qid) =
     cache_clear_keys_query cache keys binary qid"
| "kv_query (CacheRemoveKey cache key key_hint binary qid) =
     cache_remove_key_query cache key key_hint binary qid"
| "kv_query (CacheRemoveIfEquals cache key sample key_hint sample_hint binary qid) =
     cache_remove_if_equals_query cache key sample key_hint sample_hint binary qid"
| "kv_query (CacheRemoveKeys cache keys binary qid) =
     cache_remove_keys_query cache keys binary qid"
| "kv_query (CacheRemoveAll cache binary qid) =
     cache_remove_all_query cache binary qid"
| "kv_query (CacheGetSize cache peek_modes binary qid) =
     cache_get_size_query cache peek_modes binary qid"

text \<open>The \<^verbatim>\<open>binary\<close> argument of the call.\<close>

fun kv_binary :: "kv_call \<Rightarrow> bool" where
  "kv_binary (CachePut cache key value key_hint value_hint binary qid) =
     binary"
| "kv_binary (CacheGet cache key key_hint binary qid) =
     binary"
| "kv_binary (CacheGetAll cache keys binary qid) =
     binary"
| "kv_binary (CachePutAll cache pairs binary qid) =
     binary"
| "kv_binary (CacheContainsKey cache key key_hint binary qid) =
     binary"
| "kv_binary (CacheContainsKeys cache keys binary qid) =
     binary"
| "kv_binary (CacheGetAndPut cache key value key_hint value_hint binary qid) =
     binary"
| "kv_binary (CacheGetAndReplace cache key value key_hint value_hint binary qid) =
     binary"
| "kv_binary (CacheGetAndRemove cache key key_hint binary qid) =
     binary"
| "kv_binary (CachePutIfAbsent cache key value key_hint value_hint binary qid) =
     binary"
| "kv_binary (CacheGetAndPutIfAbsent cache key value key_hint value_hint binary qid) =
     binary"
| "kv_binary (CacheReplace cache key value key_hint value_hint binary qid) =
     binary"
| "kv_binary (CacheReplaceIfEquals cache key sample value key_hint sample_hint value_hint binary qid) =
     binary"
| "kv_binary (CacheClear cache binary qid) =
     binary"
| "kv_binary (CacheClearKey cache key key_hint binary qid) =
     binary"
| "kv_binary (CacheClearKeys cache keys binary qid) =
     binary"
| "kv_binary (CacheRemoveKey cache key key_hint binary qid) =
     binary"
| "kv_binary (CacheRemoveIfEquals cache key sample key_hint sample_hint binary qid) =
     binary"
| "kv_binary (CacheRemoveKeys cache keys binary qid) =
     binary"
| "kv_binary (CacheRemoveAll cache binary qid) =
     binary"
| "kv_binary (CacheGetSize cache peek_modes binary qid) =
     binary"







section \<open>Replies and the status discipline\<close>

text \<open>
  Modelled from the spec: the canonical success response of section 8 (status 0, empty
  body) in the frame layout of section 6, carrying query id \<open>qid\<close>.
\<close>

definition success_response :: "int \<Rightarrow> byte list" where
  "success_response qid = le_bytes 4 12 @ le_bytes 8 qid @ le_bytes 4 0"

text \<open>
  Modelled from the spec: a reply corresponds to a request when it carries, in its
  query-id field (8 bytes after the length), the bytes the request carries in its own
  (8 bytes after the length and the operation code); section 3 has the response's query
  identifier equal to the request's.
\<close>

definition echoes :: "byte list \<Rightarrow> byte list \<Rightarrow> bool" where
  "echoes request reply \<longleftrightarrow> take 8 (drop 4 reply) = take 8 (drop 6 request)"


section \<open>A sample instance of the parameters\<close>

text \<open>
  To run the model on concrete inputs the parameters need values. The sample below is
  small: integers as fixed-width little-endian fields or as a tagged 4-byte value,
  strings of ASCII as a tag, a length and the bytes, \<^verbatim>\<open>None\<close> as a single tag. Three
  property codes have a type. The numbers are illustrative.
\<close>

fun sample_int_width :: "ignite_type \<Rightarrow> nat option" where
  "sample_int_width ByteT = Some 1"
| "sample_int_width ShortT = Some 2"
| "sample_int_width IntT = Some 4"
| "sample_int_width LongT = Some 8"
| "sample_int_width t = None"

fun sample_enc :: "ignite_type \<Rightarrow> pyval \<Rightarrow> byte list option" where
  "sample_enc t (PyInt i) =
     (case sample_int_width t of
        Some n \<Rightarrow> if fits n i then Some (le_bytes n i) else None
      | None \<Rightarrow> if fits 4 i then Some (3 # le_bytes 4 i) else None)"
| "sample_enc t (PyStr s) =
     (if list_all (\<lambda>c. c < 128) s
      then Some (9 # le_bytes 4 (int (length s)) @ map of_nat s) else None)"
| "sample_enc t PyNone = Some [101]"
| "sample_enc t (PyList xs) = (if xs = [] then Some (le_bytes 4 0) else None)"
| "sample_enc t v = None"

fun sample_dec :: "ignite_type \<Rightarrow> byte list \<Rightarrow> (pyval \<times> nat) option" where
  "sample_dec t bs =
     (case sample_int_width t of
        Some n \<Rightarrow> if length bs < n then None else Some (PyInt (decode_int (take n bs)), n)
      | None \<Rightarrow>
          (case bs of
             [] \<Rightarrow> None
           | b # rest \<Rightarrow>
               if b = 101 then Some (PyNone, 1)
               else if b = 3 \<and> 4 \<le> length rest
               then Some (PyInt (decode_int (take 4 rest)), 5)
               else None))"

fun sample_op_value :: "op_code \<Rightarrow> int" where
  "sample_op_value OP_CACHE_GET = 1000"
| "sample_op_value OP_CACHE_PUT = 1001"
| "sample_op_value OP_CACHE_CREATE_WITH_CONFIGURATION = 1053"
| "sample_op_value OP_CACHE_GET_OR_CREATE_WITH_CONFIGURATION = 1054"
| "sample_op_value op = 1020"

definition sample_env :: env where
  "sample_env =
     \<lparr>type_enc = sample_enc,
      type_dec = sample_dec,
      prop_table = (\<lambda>code. if code = 0 then Some StringT
                            else if code = 1 then Some IntT
                            else if code = 2 then Some StringT
                            else None),
      op_value = sample_op_value,
      random_query_id = 1\<rparr>"

section \<open>Little-endian integers round-trip\<close>

lemma length_le_bytes [simp]: "length (le_bytes n x) = n"
  by (induction n arbitrary: x) simp_all

lemma le_value_le_bytes: "le_value (le_bytes n x) = x mod 256 ^ n"
proof (induction n arbitrary: x)
  case 0
  then show ?case by simp
next
  case (Suc n)
  have a: "uint (word_of_int x :: byte) = x mod 256"
    by (simp add: uint_word_of_int)
  have b: "x mod (256 * 256 ^ n) = 256 * (x div 256 mod 256 ^ n) + x mod 256"
    by (rule zmod_zmult2_eq) simp
  show ?case
    using Suc [of "x div 256"] a b by simp
qed

lemma decode_int_le_bytes:
  assumes "fits n x" and "0 < n"
  shows "decode_int (le_bytes n x) = x"
proof -
  define h :: int where "h = 2 ^ (8 * n - 1)"
  have p: "(256::int) ^ n = 2 * h"
  proof -
    have "(256::int) ^ n = 2 ^ (8 * n)"
      by (simp add: power_mult)
    also have "8 * n = Suc (8 * n - 1)"
      using assms(2) by simp
    finally show ?thesis by (simp add: h_def)
  qed
  have q: "(2::int) ^ (8 * n) = 2 * h"
    using p by (simp add: power_mult)
  have r: "- h \<le> x" "x < h"
    using assms(1) by (simp_all add: fits_def h_def)
  have d: "decode_int (le_bytes n x)
      = (if x mod (2 * h) < h then x mod (2 * h) else x mod (2 * h) - 2 * h)"
    unfolding decode_int_def Let_def le_value_le_bytes length_le_bytes p q h_def [symmetric]
    by (rule refl)
  show ?thesis
  proof (cases "0 \<le> x")
    case True
    then have "x mod (2 * h) = x" using r by simp
    then show ?thesis
      using r d by simp
  next
    case False
    then have "x mod (2 * h) = x + 2 * h"
      using r by (smt (verit) mod_add_self2 mod_pos_pos_trivial)
    then show ?thesis
      using r False d by simp
  qed
qed

section \<open>The configuration schema builder\<close>

text \<open>
  The field names \<open>property_0\<close>, \<open>property_1\<close>, ... are pairwise distinct and differ from
  \<open>param_count\<close>, so no assignment in the loop overwrites an earlier entry.
\<close>

lemma decimal_nonempty: "decimal n \<noteq> []"
  by (subst decimal.simps) simp

lemma decimal_last: "last (decimal n) = digit (n mod 10)"
  by (subst decimal.simps) simp

lemma decimal_butlast: "butlast (decimal n) = (if n < 10 then [] else decimal (n div 10))"
  by (subst decimal.simps) simp

lemma digit_inj:
  assumes "a < 10" "b < 10" "digit a = digit b"
  shows "a = b"
proof -
  have a: "(of_char (digit a) :: nat) = (48 + a) mod 256"
    unfolding digit_def by (rule of_char_of)
  have b: "(of_char (digit b) :: nat) = (48 + b) mod 256"
    unfolding digit_def by (rule of_char_of)
  have "(48 + a) mod 256 = (48 + b) mod 256"
    using a b assms(3) by metis
  moreover have "(48 + a) mod 256 = 48 + a" "(48 + b) mod 256 = 48 + b"
    using assms(1,2) by simp_all
  ultimately show ?thesis by arith
qed

lemma decimal_inj: "decimal n = decimal m \<Longrightarrow> n = m"
proof (induction n arbitrary: m rule: decimal.induct)
  case (1 n)
  have l: "n mod 10 = m mod 10"
    using decimal_last [of n] decimal_last [of m] "1.prems"
    by (auto intro: digit_inj)
  have b: "(if n < 10 then [] else decimal (n div 10))
         = (if m < 10 then [] else decimal (m div 10))"
    using decimal_butlast [of n] decimal_butlast [of m] "1.prems" by simp
  show ?case
  proof (cases "n < 10")
    case True
    then have "m < 10" using b decimal_nonempty [of "m div 10"] by (auto split: if_splits)
    then show ?thesis using True l by simp
  next
    case False
    then have m: "\<not> m < 10" using b decimal_nonempty [of "n div 10"] by (auto split: if_splits)
    then have "decimal (n div 10) = decimal (m div 10)" using b False by simp
    then have "n div 10 = m div 10" using "1.IH" False by simp
    then show ?thesis using l by (metis div_mult_mod_eq)
  qed
qed

lemma property_name_inj: "property_name i = property_name j \<longleftrightarrow> i = j"
  by (auto simp: property_name_def dest: decimal_inj)

lemma property_name_not_param_count: "property_name i \<noteq> ''param_count''"
  by (simp add: property_name_def)

lemma dict_set_fresh: "k \<notin> fst ` set d \<Longrightarrow> dict_set d k v = d @ [(k, v)]"
  by (induction d) auto

text \<open>
  The loop over the items: with every code in the table it appends one entry per item,
  in order; with one code missing it ends in \<open>UnknownPropertyError\<close>.
\<close>

lemma props_loop_ok:
  assumes "\<forall>(c, v) \<in> set props. prop_table e c \<noteq> None"
    and "\<forall>j\<ge>i. property_name j \<notin> fst ` set pt"
    and "\<forall>j\<ge>i. property_name j \<notin> fst ` set pv"
  shows "for_each (enumerate i props)
          (\<lambda>(i, prop_item) (prop_types, prop_values).
             case prop_item of (prop_code, prop_value) \<Rightarrow>
               let prop_name = property_name i in
               ebind (prop_map e prop_code) (\<lambda>t.
                 Inr (dict_set prop_types prop_name t,
                      dict_set prop_values prop_name prop_value)))
          (pt, pv)
       = Inr (pt @ map (\<lambda>(j, (c, v)). (property_name j, the (prop_table e c)))
                     (enumerate i props),
              pv @ map (\<lambda>(j, (c, v)). (property_name j, v)) (enumerate i props))"
  using assms
proof (induction props arbitrary: i pt pv)
  case Nil
  then show ?case by simp
next
  case (Cons p props)
  obtain c v where p: "p = (c, v)" by (cases p)
  obtain t where t: "prop_table e c = Some t"
    using Cons.prems(1) p by auto
  have f1: "dict_set pt (property_name i) t = pt @ [(property_name i, t)]"
    using Cons.prems(2) by (intro dict_set_fresh) auto
  have f2: "dict_set pv (property_name i) v = pv @ [(property_name i, v)]"
    using Cons.prems(3) by (intro dict_set_fresh) auto
  have i1: "\<forall>j\<ge>Suc i. property_name j \<notin> fst ` set (pt @ [(property_name i, t)])"
    using Cons.prems(2) by (auto simp: property_name_inj)
  have i2: "\<forall>j\<ge>Suc i. property_name j \<notin> fst ` set (pv @ [(property_name i, v)])"
    using Cons.prems(3) by (auto simp: property_name_inj)
  have rest: "\<forall>(c, v) \<in> set props. prop_table e c \<noteq> None"
    using Cons.prems(1) by simp
  show ?case
    using Cons.IH [OF rest i1 i2]
    by (simp add: p t prop_map_def f1 f2 Let_def)
qed

lemma props_loop_fail:
  assumes "\<exists>(c, v) \<in> set props. prop_table e c = None"
  shows "for_each (enumerate i props)
          (\<lambda>(i, prop_item) (prop_types, prop_values).
             case prop_item of (prop_code, prop_value) \<Rightarrow>
               let prop_name = property_name i in
               ebind (prop_map e prop_code) (\<lambda>t.
                 Inr (dict_set prop_types prop_name t,
                      dict_set prop_values prop_name prop_value)))
          s
       = Inl UnknownPropertyError"
  using assms
proof (induction props arbitrary: i s)
  case Nil
  then show ?case by simp
next
  case (Cons p props)
  obtain c v where p: "p = (c, v)" by (cases p)
  obtain pt pv where s: "s = (pt, pv)" by (cases s)
  show ?case
  proof (cases "prop_table e c")
    case None
    then show ?thesis by (simp add: p s prop_map_def Let_def)
  next
    case (Some t)
    then have "\<exists>(c, v) \<in> set props. prop_table e c = None"
      using Cons.prems p by auto
    then show ?thesis
      using Cons.IH by (simp add: p s Some prop_map_def Let_def)
  qed
qed

lemma create_query_eq:
  "cache_create_with_config_query e props qid =
     (if \<forall>(c, v) \<in> set props. prop_table e c \<noteq> None
      then Inr (\<lparr>op_code = OP_CACHE_CREATE_WITH_CONFIGURATION,
                 following = (''param_count'', ShortT) # property_fields e props,
                 query_id = qid\<rparr>,
                property_values props @ [(''param_count'', PyInt (int (length props)))])
      else Inl UnknownPropertyError)"
proof (cases "\<forall>(c, v) \<in> set props. prop_table e c \<noteq> None")
  case True
  have fresh: "''param_count'' \<notin> fst ` set (property_values props)"
    by (auto simp: property_values_def property_name_not_param_count [symmetric])
  show ?thesis
    using True props_loop_ok [OF True, of 0 "[]" "[]"] dict_set_fresh [OF fresh]
    by (simp add: cache_create_with_config_query_def property_fields_def
        property_values_def)
next
  case False
  then have "\<exists>(c, v) \<in> set props. prop_table e c = None" by auto
  from props_loop_fail [OF this, of 0 "([], [])"] False show ?thesis
    by (simp add: cache_create_with_config_query_def)
qed

lemma get_or_create_query_eq:
  "cache_get_or_create_with_config_query e props qid =
     (if \<forall>(c, v) \<in> set props. prop_table e c \<noteq> None
      then Inr (\<lparr>op_code = OP_CACHE_GET_OR_CREATE_WITH_CONFIGURATION,
                 following = (''param_count'', ShortT) # property_fields e props,
                 query_id = qid\<rparr>,
                property_values props @ [(''param_count'', PyInt (int (length props)))])
      else Inl UnknownPropertyError)"
proof (cases "\<forall>(c, v) \<in> set props. prop_table e c \<noteq> None")
  case True
  have fresh: "''param_count'' \<notin> fst ` set (property_values props)"
    by (auto simp: property_values_def property_name_not_param_count [symmetric])
  show ?thesis
    using True props_loop_ok [OF True, of 0 "[]" "[]"] dict_set_fresh [OF fresh]
    by (simp add: cache_get_or_create_with_config_query_def property_fields_def
        property_values_def)
next
  case False
  then have "\<exists>(c, v) \<in> set props. prop_table e c = None" by auto
  from props_loop_fail [OF this, of 0 "([], [])"] False show ?thesis
    by (simp add: cache_get_or_create_with_config_query_def)
qed

lemma length_property_fields [simp]: "length (property_fields e props) = length props"
  by (simp add: property_fields_def)

lemma nth_property_fields:
  "k < length props \<Longrightarrow>
   property_fields e props ! k = (property_name k, the (prop_table e (fst (props ! k))))"
  by (simp add: property_fields_def nth_enumerate_eq split_def)

lemma property_values_lookup_aux:
  "k < length props \<Longrightarrow>
   map_of (map (\<lambda>(j, (c, v)). (property_name j, v)) (enumerate i props))
     (property_name (i + k)) = Some (snd (props ! k))"
proof (induction props arbitrary: i k)
  case Nil
  then show ?case by simp
next
  case (Cons p props)
  show ?case
  proof (cases k)
    case 0
    then show ?thesis by (simp add: split_def)
  next
    case (Suc k')
    then have "k' < length props" using Cons.prems by simp
    from Cons.IH [OF this, of "Suc i"] show ?thesis
      by (simp add: Suc split_def property_name_inj)
  qed
qed

lemma property_values_lookup:
  "k < length props \<Longrightarrow>
   map_of (property_values props @ rest) (property_name k) = Some (snd (props ! k))"
  using property_values_lookup_aux [of k props 0]
  by (simp add: property_values_def map_add_def)

lemma property_values_no_param_count:
  "map_of (property_values props) ''param_count'' = None"
proof -
  have "''param_count'' \<notin> fst ` set (property_values props)"
    by (auto simp: property_values_def property_name_not_param_count [symmetric])
  then show ?thesis by (simp add: map_of_eq_None_iff)
qed

lemma param_count_lookup:
  "map_of (property_values props @ [(''param_count'', n)]) ''param_count'' = Some n"
  by (simp add: map_add_def property_values_no_param_count)

lemma from_python_frame:
  assumes "from_python e q vals = Inr frame"
  shows "\<exists>body. encode_fields e (following q) vals = Inr body \<and>
           fits 2 (op_value e (op_code q)) \<and>
           fits 8 (case query_id q of None \<Rightarrow> random_query_id e | Some i \<Rightarrow> i) \<and>
           frame = le_bytes 4 (int (10 + length body))
                     @ le_bytes 2 (op_value e (op_code q))
                     @ le_bytes 8 (case query_id q of None \<Rightarrow> random_query_id e | Some i \<Rightarrow> i)
                     @ body"
  using assms
  by (auto simp: from_python_def encode_int_def split: if_splits elim!: ebind.elims)

lemma encode_fields_total:
  "list_all2 (\<lambda>(name, t) bs. \<exists>v. map_of vals name = Some v \<and> type_enc e t v = Some bs)
     fs chunks \<Longrightarrow>
   encode_fields e fs vals = Inr (concat chunks)"
proof (induction fs arbitrary: chunks)
  case Nil
  then show ?case by simp
next
  case (Cons f fs)
  obtain name t where f: "f = (name, t)" by (cases f)
  from Cons.prems obtain bs rest where chunks: "chunks = bs # rest"
    and hd: "\<exists>v. map_of vals name = Some v \<and> type_enc e t v = Some bs"
    and tl: "list_all2 (\<lambda>(name, t) bs. \<exists>v. map_of vals name = Some v \<and> type_enc e t v = Some bs)
               fs rest"
    by (auto simp: f list_all2_Cons1)
  from hd obtain v where "map_of vals name = Some v" "type_enc e t v = Some bs" by blast
  then show ?case
    using Cons.IH [OF tl] by (simp add: f chunks dict_get_def)
qed

lemma config_fields_lookup:
  assumes "\<forall>(c, v) \<in> set props. prop_table e c \<noteq> None"
  shows "list_all2 (\<lambda>(c, v) (name, t). prop_table e c = Some t \<and>
            map_of (property_values props @ [(''param_count'', n)]) name = Some v)
           props (property_fields e props)"
proof (rule list_all2_all_nthI)
  show "length props = length (property_fields e props)" by simp
next
  fix k assume k: "k < length props"
  then have "props ! k \<in> set props" by simp
  then have "prop_table e (fst (props ! k)) \<noteq> None"
    using assms by (auto simp: split_def)
  moreover have "map_of (property_values props @ [(''param_count'', n)]) (property_name k)
                   = Some (snd (props ! k))"
    by (rule property_values_lookup [OF k])
  ultimately show "(case props ! k of
           (c, v) \<Rightarrow> \<lambda>(name, t). prop_table e c = Some t \<and>
              map_of (property_values props @ [(''param_count'', n)]) name = Some v)
         (property_fields e props ! k)"
    using k by (auto simp: nth_property_fields split_def)
qed

lemma config_fields_encode:
  assumes known: "\<forall>(c, v) \<in> set props. prop_table e c \<noteq> None"
    and count: "type_enc e ShortT n = Some count"
    and chunks: "list_all2 (\<lambda>(c, v) bs. \<exists>t. prop_table e c = Some t \<and> type_enc e t v = Some bs)
                   props chunks"
  shows "encode_fields e ((''param_count'', ShortT) # property_fields e props)
           (property_values props @ [(''param_count'', n)])
         = Inr (count @ concat chunks)"
proof -
  let ?vals = "property_values props @ [(''param_count'', n)]"
  have len: "length chunks = length props"
    using chunks by (auto dest: list_all2_lengthD)
  have props_ok: "list_all2
      (\<lambda>(name, t) bs. \<exists>v. map_of ?vals name = Some v \<and> type_enc e t v = Some bs)
      (property_fields e props) chunks"
  proof (rule list_all2_all_nthI)
    show "length (property_fields e props) = length chunks" using len by simp
  next
    fix k assume "k < length (property_fields e props)"
    then have k: "k < length props" by simp
    from chunks k have "\<exists>t. prop_table e (fst (props ! k)) = Some t \<and>
        type_enc e t (snd (props ! k)) = Some (chunks ! k)"
      by (auto simp: list_all2_conv_all_nth split_def)
    moreover have "map_of ?vals (property_name k) = Some (snd (props ! k))"
      by (rule property_values_lookup [OF k])
    ultimately show "(case property_fields e props ! k of
           (name, t) \<Rightarrow> \<lambda>bs. \<exists>v. map_of ?vals name = Some v \<and> type_enc e t v = Some bs)
         (chunks ! k)"
      using k by (auto simp: nth_property_fields)
  qed
  have "map_of ?vals ''param_count'' = Some n"
    by (rule param_count_lookup)
  then have "list_all2
      (\<lambda>(name, t) bs. \<exists>v. map_of ?vals name = Some v \<and> type_enc e t v = Some bs)
      ((''param_count'', ShortT) # property_fields e props) (count # chunks)"
    using props_ok count by simp
  from encode_fields_total [OF this] show ?thesis by simp
qed

text \<open>
  Claim C2. For every property map whose codes are all in the table, the builder used
  by \<^verbatim>\<open>cache_create_with_config\<close> and by \<^verbatim>\<open>cache_get_or_create_with_config\<close>
  produces a request whose property fields, after \<open>param_count\<close>, stand in the order
  in which the properties were supplied: the k-th field has the type of the k-th
  supplied code and carries the k-th supplied value, and whenever the encoders accept
  the values the encoded body is the count followed by the encodings of the values in
  that order. Nothing sorts by property code: for \<open>{2: "x", 1: 5}\<close> the value of
  code 2 is encoded before the value of code 1.
\<close>

theorem config_schema_insertion_order:
  assumes "\<forall>(c, v) \<in> set cache_props. prop_table e c \<noteq> None"
  shows "\<exists>fs vals.
     cache_create_with_config_query e cache_props qid
       = Inr (\<lparr>op_code = OP_CACHE_CREATE_WITH_CONFIGURATION,
               following = (''param_count'', ShortT) # fs, query_id = qid\<rparr>, vals) \<and>
     cache_get_or_create_with_config_query e cache_props qid
       = Inr (\<lparr>op_code = OP_CACHE_GET_OR_CREATE_WITH_CONFIGURATION,
               following = (''param_count'', ShortT) # fs, query_id = qid\<rparr>, vals) \<and>
     list_all2 (\<lambda>(c, v) (name, t). prop_table e c = Some t \<and> map_of vals name = Some v)
       cache_props fs \<and>
     (\<forall>count chunks.
        type_enc e ShortT (PyInt (int (length cache_props))) = Some count \<and>
        list_all2 (\<lambda>(c, v) bs. \<exists>t. prop_table e c = Some t \<and> type_enc e t v = Some bs)
          cache_props chunks \<longrightarrow>
        encode_fields e ((''param_count'', ShortT) # fs) vals = Inr (count @ concat chunks))"
proof -
  let ?fs = "property_fields e cache_props"
  let ?vals = "property_values cache_props
                 @ [(''param_count'', PyInt (int (length cache_props)))]"
  have c: "cache_create_with_config_query e cache_props qid
       = Inr (\<lparr>op_code = OP_CACHE_CREATE_WITH_CONFIGURATION,
               following = (''param_count'', ShortT) # ?fs, query_id = qid\<rparr>, ?vals)"
    unfolding create_query_eq by (rule if_P [OF assms])
  have g: "cache_get_or_create_with_config_query e cache_props qid
       = Inr (\<lparr>op_code = OP_CACHE_GET_OR_CREATE_WITH_CONFIGURATION,
               following = (''param_count'', ShortT) # ?fs, query_id = qid\<rparr>, ?vals)"
    unfolding get_or_create_query_eq by (rule if_P [OF assms])
  have l: "list_all2 (\<lambda>(c, v) (name, t). prop_table e c = Some t \<and> map_of ?vals name = Some v)
       cache_props ?fs"
    by (rule config_fields_lookup [OF assms])
  have b: "encode_fields e ((''param_count'', ShortT) # ?fs) ?vals = Inr (count @ concat chunks)"
    if "type_enc e ShortT (PyInt (int (length cache_props))) = Some count"
      "list_all2 (\<lambda>(c, v) bs. \<exists>t. prop_table e c = Some t \<and> type_enc e t v = Some bs)
          cache_props chunks"
    for count chunks
    by (rule config_fields_encode [OF assms that])
  show ?thesis
    using c g l b by blast
qed

theorem config_schema_insertion_order_witness:
  "list_all (\<lambda>(c, v). prop_table sample_env c \<noteq> None)
     [(2, PyStr (py_str ''x'')), (1, PyInt 5)] \<and>
   cache_create_with_config_query sample_env
       [(2, PyStr (py_str ''x'')), (1, PyInt 5)] (Some 1)
     = Inr (\<lparr>op_code = OP_CACHE_CREATE_WITH_CONFIGURATION,
             following = [(''param_count'', ShortT), (''property_0'', StringT),
                          (''property_1'', IntT)],
             query_id = Some 1\<rparr>,
            [(''property_0'', PyStr [120]), (''property_1'', PyInt 5),
             (''param_count'', PyInt 2)]) \<and>
   cache_get_or_create_with_config_query sample_env
       [(2, PyStr (py_str ''x'')), (1, PyInt 5)] (Some 1)
     = Inr (\<lparr>op_code = OP_CACHE_GET_OR_CREATE_WITH_CONFIGURATION,
             following = [(''param_count'', ShortT), (''property_0'', StringT),
                          (''property_1'', IntT)],
             query_id = Some 1\<rparr>,
            [(''property_0'', PyStr [120]), (''property_1'', PyInt 5),
             (''param_count'', PyInt 2)]) \<and>
   encode_fields sample_env
     [(''param_count'', ShortT), (''property_0'', StringT), (''property_1'', IntT)]
     [(''property_0'', PyStr [120]), (''property_1'', PyInt 5), (''param_count'', PyInt 2)]
     = Inr ([2, 0] @ [9, 1, 0, 0, 0, 120] @ [5, 0, 0, 0])"
proof -
  let ?props = "[(2, PyStr (py_str ''x'')), (1, PyInt 5)] :: (int \<times> pyval) list"
  have known: "\<forall>(c, v) \<in> set ?props. prop_table sample_env c \<noteq> None"
    by (simp add: sample_env_def)
  have h: "cache_create_with_config_query sample_env ?props (Some 1)
     = Inr (\<lparr>op_code = OP_CACHE_CREATE_WITH_CONFIGURATION,
             following = [(''param_count'', ShortT), (''property_0'', StringT),
                          (''property_1'', IntT)],
             query_id = Some 1\<rparr>,
            [(''property_0'', PyStr [120]), (''property_1'', PyInt 5),
             (''param_count'', PyInt 2)])"
    by code_simp
  have count: "type_enc sample_env ShortT (PyInt (int (length ?props))) = Some [2, 0]"
    by code_simp
  have chunks: "list_all2
      (\<lambda>(c, v) bs. \<exists>t. prop_table sample_env c = Some t \<and> type_enc sample_env t v = Some bs)
      ?props [[9, 1, 0, 0, 0, 120], [5, 0, 0, 0]]"
    by (simp add: sample_env_def py_str_def fits_def numeral_eq_Suc)
  from config_schema_insertion_order [OF known, of "Some 1"] obtain fs vals where
    c: "cache_create_with_config_query sample_env ?props (Some 1)
       = Inr (\<lparr>op_code = OP_CACHE_CREATE_WITH_CONFIGURATION,
               following = (''param_count'', ShortT) # fs, query_id = Some 1\<rparr>, vals)" and
    g: "cache_get_or_create_with_config_query sample_env ?props (Some 1)
       = Inr (\<lparr>op_code = OP_CACHE_GET_OR_CREATE_WITH_CONFIGURATION,
               following = (''param_count'', ShortT) # fs, query_id = Some 1\<rparr>, vals)" and
    b: "\<forall>count chunks.
        type_enc sample_env ShortT (PyInt (int (length ?props))) = Some count \<and>
        list_all2 (\<lambda>(c, v) bs. \<exists>t. prop_table sample_env c = Some t \<and>
                     type_enc sample_env t v = Some bs) ?props chunks \<longrightarrow>
        encode_fields sample_env ((''param_count'', ShortT) # fs) vals
          = Inr (count @ concat chunks)"
    by blast
  from c h have fs: "fs = [(''property_0'', StringT), (''property_1'', IntT)]"
    and vals: "vals = [(''property_0'', PyStr [120]), (''property_1'', PyInt 5),
             (''param_count'', PyInt 2)]"
    by simp_all
  have enc: "encode_fields sample_env ((''param_count'', ShortT) # fs) vals
          = Inr ([2, 0] @ concat [[9, 1, 0, 0, 0, 120], [5, 0, 0, 0]])"
    using b count chunks by blast
  show ?thesis
    using known h g enc unfolding fs vals by simp
qed

text \<open>
  Claim C4. For every property map and query id the two functions build the same
  request up to the operation code: both fail with the same error, or both succeed with
  the same schema, the same values and the same query id, and operation codes
  \<open>OP_CACHE_CREATE_WITH_CONFIGURATION\<close> and \<open>OP_CACHE_GET_OR_CREATE_WITH_CONFIGURATION\<close>.
  Their frames agree on the length and on everything after the two bytes of the
  operation code.
\<close>

theorem config_requests_differ_in_op_code:
  "(case (cache_create_with_config_query e cache_props (Some qid),
          cache_get_or_create_with_config_query e cache_props (Some qid)) of
      (Inr (q1, vals1), Inr (q2, vals2)) \<Rightarrow>
         following q1 = following q2 \<and> query_id q1 = Some qid \<and> query_id q2 = Some qid \<and>
         vals1 = vals2 \<and>
         op_code q1 = OP_CACHE_CREATE_WITH_CONFIGURATION \<and>
         op_code q2 = OP_CACHE_GET_OR_CREATE_WITH_CONFIGURATION \<and>
         (\<forall>f1 f2. from_python e q1 vals1 = Inr f1 \<and> from_python e q2 vals2 = Inr f2 \<longrightarrow>
            take 4 f1 = take 4 f2 \<and> drop 6 f1 = drop 6 f2 \<and>
            take 2 (drop 4 f1) = le_bytes 2 (op_value e OP_CACHE_CREATE_WITH_CONFIGURATION) \<and>
            take 2 (drop 4 f2)
              = le_bytes 2 (op_value e OP_CACHE_GET_OR_CREATE_WITH_CONFIGURATION))
    | (Inl err1, Inl err2) \<Rightarrow> err1 = err2
    | _ \<Rightarrow> False)"
proof (cases "\<forall>(c, v) \<in> set cache_props. prop_table e c \<noteq> None")
  case False
  have "cache_create_with_config_query e cache_props (Some qid) = Inl UnknownPropertyError"
    unfolding create_query_eq by (rule if_not_P [OF False])
  moreover have
    "cache_get_or_create_with_config_query e cache_props (Some qid) = Inl UnknownPropertyError"
    unfolding get_or_create_query_eq by (rule if_not_P [OF False])
  ultimately show ?thesis by simp
next
  case True
  have frames: "take 4 f1 = take 4 f2 \<and> drop 6 f1 = drop 6 f2 \<and>
      take 2 (drop 4 f1) = le_bytes 2 (op_value e (op_code q1)) \<and>
      take 2 (drop 4 f2) = le_bytes 2 (op_value e (op_code q2))"
    if "from_python e q1 vals = Inr f1" "from_python e q2 vals = Inr f2"
      "following q1 = following q2" "query_id q1 = query_id q2"
    for q1 q2 :: query and vals f1 f2
    using from_python_frame [OF that(1)] from_python_frame [OF that(2)] that(3,4)
    by auto
  let ?V = "property_values cache_props
             @ [(''param_count'', PyInt (int (length cache_props)))]"
  let ?Q1 = "\<lparr>op_code = OP_CACHE_CREATE_WITH_CONFIGURATION,
              following = (''param_count'', ShortT) # property_fields e cache_props,
              query_id = Some qid\<rparr>"
  let ?Q2 = "\<lparr>op_code = OP_CACHE_GET_OR_CREATE_WITH_CONFIGURATION,
              following = (''param_count'', ShortT) # property_fields e cache_props,
              query_id = Some qid\<rparr>"
  have c: "cache_create_with_config_query e cache_props (Some qid) = Inr (?Q1, ?V)"
    unfolding create_query_eq by (rule if_P [OF True])
  have g: "cache_get_or_create_with_config_query e cache_props (Some qid) = Inr (?Q2, ?V)"
    unfolding get_or_create_query_eq by (rule if_P [OF True])
  have fr: "take 4 f1 = take 4 f2 \<and> drop 6 f1 = drop 6 f2 \<and>
      take 2 (drop 4 f1) = le_bytes 2 (op_value e OP_CACHE_CREATE_WITH_CONFIGURATION) \<and>
      take 2 (drop 4 f2) = le_bytes 2 (op_value e OP_CACHE_GET_OR_CREATE_WITH_CONFIGURATION)"
    if a: "from_python e ?Q1 ?V = Inr f1" and b: "from_python e ?Q2 ?V = Inr f2" for f1 f2
    using frames [OF a b] by simp
  show ?thesis
    unfolding c g using fr by simp
qed

theorem config_requests_differ_in_op_code_witness:
  "cache_create_with_config_query sample_env [(2, PyStr (py_str ''x'')), (1, PyInt 5)] (Some 1)
     = Inr (\<lparr>op_code = OP_CACHE_CREATE_WITH_CONFIGURATION,
             following = [(''param_count'', ShortT), (''property_0'', StringT),
                          (''property_1'', IntT)],
             query_id = Some 1\<rparr>,
            [(''property_0'', PyStr [120]), (''property_1'', PyInt 5),
             (''param_count'', PyInt 2)]) \<and>
   cache_get_or_create_with_config_query sample_env
       [(2, PyStr (py_str ''x'')), (1, PyInt 5)] (Some 1)
     = Inr (\<lparr>op_code = OP_CACHE_GET_OR_CREATE_WITH_CONFIGURATION,
             following = [(''param_count'', ShortT), (''property_0'', StringT),
                          (''property_1'', IntT)],
             query_id = Some 1\<rparr>,
            [(''property_0'', PyStr [120]), (''property_1'', PyInt 5),
             (''param_count'', PyInt 2)])"
proof -
  have h: "cache_create_with_config_query sample_env
       [(2, PyStr (py_str ''x'')), (1, PyInt 5)] (Some 1)
     = Inr (\<lparr>op_code = OP_CACHE_CREATE_WITH_CONFIGURATION,
             following = [(''param_count'', ShortT), (''property_0'', StringT),
                          (''property_1'', IntT)],
             query_id = Some 1\<rparr>,
            [(''property_0'', PyStr [120]), (''property_1'', PyInt 5),
             (''param_count'', PyInt 2)])"
    by code_simp
  obtain q2 vals2 where g: "cache_get_or_create_with_config_query sample_env
       [(2, PyStr (py_str ''x'')), (1, PyInt 5)] (Some 1) = Inr (q2, vals2)"
    and eq: "following q2 = [(''param_count'', ShortT), (''property_0'', StringT),
                          (''property_1'', IntT)]"
            "query_id q2 = Some 1"
            "vals2 = [(''property_0'', PyStr [120]), (''property_1'', PyInt 5),
             (''param_count'', PyInt 2)]"
            "op_code q2 = OP_CACHE_GET_OR_CREATE_WITH_CONFIGURATION"
    using config_requests_differ_in_op_code
            [where e = sample_env and qid = 1
               and cache_props = "[(2, PyStr (py_str ''x'')), (1, PyInt 5)]"]
    unfolding h by (auto split: sum.splits)
  have "q2 = \<lparr>op_code = OP_CACHE_GET_OR_CREATE_WITH_CONFIGURATION,
             following = [(''param_count'', ShortT), (''property_0'', StringT),
                          (''property_1'', IntT)],
             query_id = Some 1\<rparr>"
    using eq by (cases q2) simp
  then show ?thesis using h g eq by simp
qed

text \<open>
  Claim C6. For every property map whose codes are all in the table, the builder
  produces a schema that starts with the field \<open>param_count\<close> of the fixed-width type
  \<open>Short\<close>, followed by one field per property; the value of \<open>param_count\<close> is the
  number of entries of the map, and whenever the encoders accept the values the encoded
  body starts with the encoding of that count.
\<close>

theorem config_schema_param_count:
  assumes "\<forall>(c, v) \<in> set cache_props. prop_table e c \<noteq> None"
  shows "\<exists>rest vals.
     cache_create_with_config_query e cache_props qid
       = Inr (\<lparr>op_code = OP_CACHE_CREATE_WITH_CONFIGURATION,
               following = (''param_count'', ShortT) # rest, query_id = qid\<rparr>, vals) \<and>
     cache_get_or_create_with_config_query e cache_props qid
       = Inr (\<lparr>op_code = OP_CACHE_GET_OR_CREATE_WITH_CONFIGURATION,
               following = (''param_count'', ShortT) # rest, query_id = qid\<rparr>, vals) \<and>
     length rest = length cache_props \<and>
     map_of vals ''param_count'' = Some (PyInt (int (length cache_props))) \<and>
     (\<forall>count chunks.
        type_enc e ShortT (PyInt (int (length cache_props))) = Some count \<and>
        list_all2 (\<lambda>(c, v) bs. \<exists>t. prop_table e c = Some t \<and> type_enc e t v = Some bs)
          cache_props chunks \<longrightarrow>
        (\<exists>tail. encode_fields e ((''param_count'', ShortT) # rest) vals
                  = Inr (count @ tail)))"
proof -
  let ?fs = "property_fields e cache_props"
  let ?vals = "property_values cache_props
                 @ [(''param_count'', PyInt (int (length cache_props)))]"
  have c: "cache_create_with_config_query e cache_props qid
       = Inr (\<lparr>op_code = OP_CACHE_CREATE_WITH_CONFIGURATION,
               following = (''param_count'', ShortT) # ?fs, query_id = qid\<rparr>, ?vals)"
    unfolding create_query_eq by (rule if_P [OF assms])
  have g: "cache_get_or_create_with_config_query e cache_props qid
       = Inr (\<lparr>op_code = OP_CACHE_GET_OR_CREATE_WITH_CONFIGURATION,
               following = (''param_count'', ShortT) # ?fs, query_id = qid\<rparr>, ?vals)"
    unfolding get_or_create_query_eq by (rule if_P [OF assms])
  have n: "length ?fs = length cache_props" by simp
  have p: "map_of ?vals ''param_count'' = Some (PyInt (int (length cache_props)))"
    by (rule param_count_lookup)
  have b: "\<exists>tail. encode_fields e ((''param_count'', ShortT) # ?fs) ?vals = Inr (count @ tail)"
    if "type_enc e ShortT (PyInt (int (length cache_props))) = Some count"
      "list_all2 (\<lambda>(c, v) bs. \<exists>t. prop_table e c = Some t \<and> type_enc e t v = Some bs)
          cache_props chunks"
    for count chunks
    using config_fields_encode [OF assms that] by blast
  show ?thesis
    using c g n p b by blast
qed

theorem config_schema_param_count_witness:
  "list_all (\<lambda>(c, v). prop_table sample_env c \<noteq> None)
     [(2, PyStr (py_str ''x'')), (1, PyInt 5), (0, PyStr (py_str ''c''))] \<and>
   cache_create_with_config_query sample_env
       [(2, PyStr (py_str ''x'')), (1, PyInt 5), (0, PyStr (py_str ''c''))] None
     = Inr (\<lparr>op_code = OP_CACHE_CREATE_WITH_CONFIGURATION,
             following = [(''param_count'', ShortT), (''property_0'', StringT),
                          (''property_1'', IntT), (''property_2'', StringT)],
             query_id = None\<rparr>,
            [(''property_0'', PyStr [120]), (''property_1'', PyInt 5),
             (''property_2'', PyStr [99]), (''param_count'', PyInt 3)]) \<and>
   cache_get_or_create_with_config_query sample_env
       [(2, PyStr (py_str ''x'')), (1, PyInt 5), (0, PyStr (py_str ''c''))] None
     = Inr (\<lparr>op_code = OP_CACHE_GET_OR_CREATE_WITH_CONFIGURATION,
             following = [(''param_count'', ShortT), (''property_0'', StringT),
                          (''property_1'', IntT), (''property_2'', StringT)],
             query_id = None\<rparr>,
            [(''property_0'', PyStr [120]), (''property_1'', PyInt 5),
             (''property_2'', PyStr [99]), (''param_count'', PyInt 3)]) \<and>
   map_of [(''property_0'', PyStr [120]), (''property_1'', PyInt 5),
           (''property_2'', PyStr [99]), (''param_count'', PyInt 3)] ''param_count''
     = Some (PyInt 3) \<and>
   type_enc sample_env ShortT (PyInt 3) = Some [3, 0]"
proof -
  let ?props = "[(2, PyStr (py_str ''x'')), (1, PyInt 5), (0, PyStr (py_str ''c''))]
                  :: (int \<times> pyval) list"
  have known: "\<forall>(c, v) \<in> set ?props. prop_table sample_env c \<noteq> None"
    by (simp add: sample_env_def)
  have h: "cache_create_with_config_query sample_env ?props None
     = Inr (\<lparr>op_code = OP_CACHE_CREATE_WITH_CONFIGURATION,
             following = [(''param_count'', ShortT), (''property_0'', StringT),
                          (''property_1'', IntT), (''property_2'', StringT)],
             query_id = None\<rparr>,
            [(''property_0'', PyStr [120]), (''property_1'', PyInt 5),
             (''property_2'', PyStr [99]), (''param_count'', PyInt 3)])"
    by code_simp
  have t: "type_enc sample_env ShortT (PyInt 3) = Some [3, 0]"
    by code_simp
  from config_schema_param_count [OF known, of None] obtain rest vals where
    c: "cache_create_with_config_query sample_env ?props None
       = Inr (\<lparr>op_code = OP_CACHE_CREATE_WITH_CONFIGURATION,
               following = (''param_count'', ShortT) # rest, query_id = None\<rparr>, vals)" and
    g: "cache_get_or_create_with_config_query sample_env ?props None
       = Inr (\<lparr>op_code = OP_CACHE_GET_OR_CREATE_WITH_CONFIGURATION,
               following = (''param_count'', ShortT) # rest, query_id = None\<rparr>, vals)" and
    p: "map_of vals ''param_count'' = Some (PyInt (int (length ?props)))"
    by blast
  from c h have rest: "rest = [(''property_0'', StringT), (''property_1'', IntT),
                               (''property_2'', StringT)]"
    and vals: "vals = [(''property_0'', PyStr [120]), (''property_1'', PyInt 5),
             (''property_2'', PyStr [99]), (''param_count'', PyInt 3)]"
    by simp_all
  show ?thesis
    using known h g p t unfolding rest vals by simp
qed

text \<open>
  Claim C8. If the property map holds a code with no entry in the table, building the
  schema fails with \<open>UnknownPropertyError\<close>, in both functions, and the call ends with
  that error before anything is sent.
\<close>

theorem config_unknown_property:
  assumes "(c, v) \<in> set cache_props" and "prop_table e c = None"
  shows "cache_create_with_config_query e cache_props qid = Inl UnknownPropertyError \<and>
         cache_get_or_create_with_config_query e cache_props qid = Inl UnknownPropertyError \<and>
         cache_create_with_config e conn cache_props qid = Inl UnknownPropertyError \<and>
         cache_get_or_create_with_config e conn cache_props qid = Inl UnknownPropertyError"
proof -
  have n: "\<not> (\<forall>(c, v) \<in> set cache_props. prop_table e c \<noteq> None)"
    using assms by force
  have a: "cache_create_with_config_query e cache_props qid = Inl UnknownPropertyError"
    unfolding create_query_eq by (rule if_not_P [OF n])
  have b: "cache_get_or_create_with_config_query e cache_props qid = Inl UnknownPropertyError"
    unfolding get_or_create_query_eq by (rule if_not_P [OF n])
  show ?thesis
    by (simp add: a b cache_create_with_config_def cache_get_or_create_with_config_def)
qed

theorem config_unknown_property_witness:
  "(9, PyInt 5) \<in> set [(2, PyStr (py_str ''x'')), (9, PyInt 5)] \<and>
   prop_table sample_env 9 = None \<and>
   cache_create_with_config sample_env \<lparr>sent = [], incoming = []\<rparr>
     [(2, PyStr (py_str ''x'')), (9, PyInt 5)] None = Inl UnknownPropertyError \<and>
   cache_get_or_create_with_config sample_env \<lparr>sent = [], incoming = []\<rparr>
     [(2, PyStr (py_str ''x'')), (9, PyInt 5)] None = Inl UnknownPropertyError"
proof -
  have m: "(9, PyInt 5) \<in> set [(2, PyStr (py_str ''x'')), (9, PyInt 5)]"
    by simp
  have t: "prop_table sample_env 9 = None"
    by (simp add: sample_env_def)
  show ?thesis
    using m t config_unknown_property [OF m t, of None "\<lparr>sent = [], incoming = []\<rparr>"]
    by simp
qed

section \<open>Parsing a reply\<close>

text \<open>
  What a successful parse says about the bytes it read and the response it built, and
  the parse of the canonical success response.
\<close>

lemma ebind_Inr:
  "ebind m f = Inr y \<Longrightarrow> \<exists>x. m = Inr x \<and> f x = Inr y"
  by (cases m) simp_all


lemma recv_Inr:
  "recv conn n = Inr (bs, c) \<Longrightarrow>
   n \<le> length (incoming conn) \<and> bs = take n (incoming conn) \<and>
   c = conn\<lparr>incoming := drop n (incoming conn)\<rparr>"
  by (auto simp: recv_def split: if_splits)

lemma parse_Inr:
  assumes "parse e fs conn = Inr (resp, conn')"
  shows "\<exists>payload.
           4 \<le> length (incoming conn) \<and>
           12 \<le> decode_int (take 4 (incoming conn)) \<and>
           nat (decode_int (take 4 (incoming conn))) \<le> length (incoming conn) - 4 \<and>
           payload = take (nat (decode_int (take 4 (incoming conn)))) (drop 4 (incoming conn)) \<and>
           conn' = conn\<lparr>incoming :=
                     drop (nat (decode_int (take 4 (incoming conn)))) (drop 4 (incoming conn))\<rparr> \<and>
           response_query_id resp = decode_int (take 8 payload) \<and>
           status_code resp = decode_int (take 4 (drop 8 payload)) \<and>
           (status_code resp \<noteq> 0 \<longrightarrow>
              field_values resp = [] \<and> (\<exists>text. error_message resp = Some text)) \<and>
           (status_code resp = 0 \<longrightarrow>
              error_message resp = None \<and>
              decode_fields e fs (drop 12 payload) = Inr (field_values resp, []))"
proof -
  from assms obtain lb c1 where r1: "recv conn 4 = Inr (lb, c1)"
    and rest1: "(let n = decode_int lb in
       if n < 12 then Inl DecodeError
       else ebind (recv c1 (nat n)) (\<lambda>(payload, c2).
         let qid = decode_int (take 8 payload);
             st = decode_int (take 4 (drop 8 payload));
             body = drop 12 payload
         in if st \<noteq> 0 then
              (if length body < 4 then Inl DecodeError
               else let m = decode_int (take 4 body)
                    in if m < 0 \<or> int (length body) - 4 < m then Inl DecodeError
                       else Inr (\<lparr>frame_length = n, response_query_id = qid, status_code = st,
                                  error_message = Some (take (nat m) (drop 4 body)),
                                  field_values = []\<rparr>, c2))
            else ebind (decode_fields e fs body) (\<lambda>(vals, rest).
                   if rest \<noteq> [] then Inl DecodeError
                   else Inr (\<lparr>frame_length = n, response_query_id = qid, status_code = st,
                              error_message = None, field_values = vals\<rparr>, c2)))) = Inr (resp, conn')"
    unfolding parse_def by (auto dest!: ebind_Inr)
  note a = recv_Inr [OF r1]
  define n where "n = decode_int lb"
  from rest1 have n12: "12 \<le> n"
    by (auto simp: n_def Let_def split: if_splits)
  from rest1 n12 obtain payload c2 where r2: "recv c1 (nat n) = Inr (payload, c2)"
    and rest2: "(let qid = decode_int (take 8 payload);
             st = decode_int (take 4 (drop 8 payload));
             body = drop 12 payload
         in if st \<noteq> 0 then
              (if length body < 4 then Inl DecodeError
               else let m = decode_int (take 4 body)
                    in if m < 0 \<or> int (length body) - 4 < m then Inl DecodeError
                       else Inr (\<lparr>frame_length = n, response_query_id = qid, status_code = st,
                                  error_message = Some (take (nat m) (drop 4 body)),
                                  field_values = []\<rparr>, c2))
            else ebind (decode_fields e fs body) (\<lambda>(vals, rest).
                   if rest \<noteq> [] then Inl DecodeError
                   else Inr (\<lparr>frame_length = n, response_query_id = qid, status_code = st,
                              error_message = None, field_values = vals\<rparr>, c2))) = Inr (resp, conn')"
    by (auto simp: n_def [symmetric] Let_def dest!: ebind_Inr)
  note b = recv_Inr [OF r2]
  have c: "conn' = c2 \<and>
        response_query_id resp = decode_int (take 8 payload) \<and>
        status_code resp = decode_int (take 4 (drop 8 payload)) \<and>
        (status_code resp \<noteq> 0 \<longrightarrow>
           field_values resp = [] \<and> (\<exists>text. error_message resp = Some text)) \<and>
        (status_code resp = 0 \<longrightarrow>
           error_message resp = None \<and>
           decode_fields e fs (drop 12 payload) = Inr (field_values resp, []))"
    using rest2 by (auto simp: Let_def split: if_splits dest!: ebind_Inr)
  show ?thesis
    using a b c n12 by (auto simp: n_def)
qed

lemma decode_int_12: "decode_int (le_bytes 4 12) = 12"
  by (rule decode_int_le_bytes) (simp_all add: fits_def)

lemma decode_int_0: "decode_int (le_bytes 4 0) = 0"
  by (rule decode_int_le_bytes) (simp_all add: fits_def)

lemma parse_success_response:
  assumes "incoming conn = success_response rq"
  shows "parse e [] conn =
           Inr (\<lparr>frame_length = 12, response_query_id = decode_int (le_bytes 8 rq),
                 status_code = 0, error_message = None, field_values = []\<rparr>,
                conn\<lparr>incoming := []\<rparr>)"
proof -
  have r1: "recv conn 4 = Inr (le_bytes 4 12,
              conn\<lparr>incoming := le_bytes 8 rq @ le_bytes 4 0\<rparr>)"
    by (simp add: recv_def assms success_response_def)
  have r2: "recv (conn\<lparr>incoming := le_bytes 8 rq @ le_bytes 4 0\<rparr>) 12
              = Inr (le_bytes 8 rq @ le_bytes 4 0, conn\<lparr>incoming := []\<rparr>)"
    by (simp add: recv_def)
  show ?thesis
    by (simp add: parse_def r1 decode_int_12 r2 decode_int_0 Let_def)
qed

lemma from_python_total:
  assumes "encode_fields e (following q) vals = Inr body"
    and "fits 2 (op_value e (op_code q))"
    and "fits 8 (case query_id q of None \<Rightarrow> random_query_id e | Some i \<Rightarrow> i)"
    and "fits 4 (int (10 + length body))"
  shows "from_python e q vals =
           Inr (le_bytes 4 (int (10 + length body))
                  @ le_bytes 2 (op_value e (op_code q))
                  @ le_bytes 8 (case query_id q of None \<Rightarrow> random_query_id e | Some i \<Rightarrow> i)
                  @ body)"
  using assms by (simp add: from_python_def encode_int_def)

lemma parse_success_response_fits:
  assumes "incoming conn = success_response qid" and "fits 8 qid"
  shows "parse e [] conn =
           Inr (\<lparr>frame_length = 12, response_query_id = qid,
                 status_code = 0, error_message = None, field_values = []\<rparr>,
                conn\<lparr>incoming := []\<rparr>)"
proof -
  have "decode_int (le_bytes 8 qid) = qid"
    by (rule decode_int_le_bytes [OF assms(2)]) simp
  then show ?thesis
    using parse_success_response [OF assms(1), of e] by simp
qed

text \<open>
  Claim C1. For every cache, key and value that the encoders accept (with an operation
  code, a query id and a length that fit their fields), a \<^verbatim>\<open>cache_put\<close> call whose
  reply is the canonical success response (status 0, empty body) sends the request frame
  and returns a result with status 0, no error text and no value.
\<close>

theorem cache_put_success:
  assumes "type_enc e IntT (PyInt (cache_id cache)) = Some b1"
    and "type_enc e ByteT (PyInt (if binary then 1 else 0)) = Some b2"
    and "type_enc e (hint_or key_hint AnyDataObjectT) key = Some b3"
    and "type_enc e (hint_or value_hint AnyDataObjectT) value = Some b4"
    and "fits 2 (op_value e OP_CACHE_PUT)"
    and "fits 8 (case qid of None \<Rightarrow> random_query_id e | Some i \<Rightarrow> i)"
    and "fits 4 (int (10 + length (b1 @ b2 @ b3 @ b4)))"
    and "incoming conn = success_response rq"
  shows "cache_put e conn cache key value key_hint value_hint binary qid =
           Inr (\<lparr>status = 0, message = None, result_value = PyNone\<rparr>,
                conn\<lparr>sent := sent conn @
                        [le_bytes 4 (int (10 + length (b1 @ b2 @ b3 @ b4)))
                           @ le_bytes 2 (op_value e OP_CACHE_PUT)
                           @ le_bytes 8 (case qid of None \<Rightarrow> random_query_id e | Some i \<Rightarrow> i)
                           @ b1 @ b2 @ b3 @ b4],
                     incoming := []\<rparr>)"
proof -
  let ?buf = "le_bytes 4 (int (10 + length (b1 @ b2 @ b3 @ b4)))
                @ le_bytes 2 (op_value e OP_CACHE_PUT)
                @ le_bytes 8 (case qid of None \<Rightarrow> random_query_id e | Some i \<Rightarrow> i)
                @ b1 @ b2 @ b3 @ b4"
  obtain query_struct vals where
    q: "cache_put_query cache key value key_hint value_hint binary qid = (query_struct, vals)"
    by (cases "cache_put_query cache key value key_hint value_hint binary qid")
  have qs: "following query_struct =
              [(''hash_code'', IntT), (''flag'', ByteT),
               (''key'', hint_or key_hint AnyDataObjectT),
               (''value'', hint_or value_hint AnyDataObjectT)]"
      "op_code query_struct = OP_CACHE_PUT" "query_id query_struct = qid"
      "vals = [(''hash_code'', PyInt (cache_id cache)),
               (''flag'', PyInt (if binary then 1 else 0)),
               (''key'', key), (''value'', value)]"
    using q by (auto simp: cache_put_query_def)
  have enc: "encode_fields e (following query_struct) vals = Inr (b1 @ b2 @ b3 @ b4)"
    unfolding qs using assms(1-4) by (simp add: dict_get_def)
  have fp: "from_python e query_struct vals = Inr ?buf"
    using from_python_total [OF enc] assms(5-7) by (simp add: qs(2,3))
  have inc: "incoming (send conn ?buf) = success_response rq"
    using assms(8) by (simp add: send_def)
  have ex: "exchange e conn query_struct vals [] =
      Inr (\<lparr>frame_length = 12, response_query_id = decode_int (le_bytes 8 rq),
            status_code = 0, error_message = None, field_values = []\<rparr>,
           (send conn ?buf)\<lparr>incoming := []\<rparr>)"
    by (simp only: exchange_def fp ebind.simps parse_success_response [OF inc])
  show ?thesis
    by (simp add: cache_put_def q ex APIResult_def to_python_def send_def)
qed

theorem cache_put_success_witness:
  "type_enc sample_env IntT (PyInt (cache_id (CacheName (py_str ''myCache''))))
     = Some [54, 93, 95, 88] \<and>
   type_enc sample_env ByteT (PyInt (if False then 1 else 0)) = Some [0] \<and>
   type_enc sample_env (hint_or None AnyDataObjectT) (PyStr (py_str ''k''))
     = Some [9, 1, 0, 0, 0, 107] \<and>
   type_enc sample_env (hint_or None AnyDataObjectT) (PyInt 42) = Some [3, 42, 0, 0, 0] \<and>
   success_response 7 = [12, 0, 0, 0, 7, 0, 0, 0, 0, 0, 0, 0, 0, 0, 0, 0] \<and>
   cache_put sample_env \<lparr>sent = [], incoming = success_response 7\<rparr>
     (CacheName (py_str ''myCache'')) (PyStr (py_str ''k'')) (PyInt 42) None None False (Some 7)
    = Inr (\<lparr>status = 0, message = None, result_value = PyNone\<rparr>,
           \<lparr>sent = [[26, 0, 0, 0, 233, 3, 7, 0, 0, 0, 0, 0, 0, 0, 54, 93, 95, 88, 0,
                      9, 1, 0, 0, 0, 107, 3, 42, 0, 0, 0]],
            incoming = []\<rparr>)"
proof -
  have hc: "cache_id (CacheName (py_str ''myCache'')) = 1482644790"
    by (simp add: hashcode_def py_str_def utf16_units_def)
  have a1: "type_enc sample_env IntT (PyInt (cache_id (CacheName (py_str ''myCache''))))
     = Some [54, 93, 95, 88]"
    unfolding hc by code_simp
  have a2: "type_enc sample_env ByteT (PyInt (if False then 1 else 0)) = Some [0]"
    by code_simp
  have a3: "type_enc sample_env (hint_or None AnyDataObjectT) (PyStr (py_str ''k''))
     = Some [9, 1, 0, 0, 0, 107]"
    by code_simp
  have a4: "type_enc sample_env (hint_or None AnyDataObjectT) (PyInt 42) = Some [3, 42, 0, 0, 0]"
    by code_simp
  have a5: "fits 2 (op_value sample_env OP_CACHE_PUT)"
    by code_simp
  have a6: "fits 8 (case Some 7 of None \<Rightarrow> random_query_id sample_env | Some i \<Rightarrow> i)"
    by code_simp
  have a7: "fits 4 (int (10 + length ([54, 93, 95, 88] @ [0] @ [9, 1, 0, 0, 0, 107]
                                      @ [3, 42, 0, 0, 0 :: byte])))"
    by code_simp
  have a8: "incoming \<lparr>sent = [], incoming = success_response 7\<rparr> = success_response 7"
    by simp
  have sr: "success_response 7 = [12, 0, 0, 0, 7, 0, 0, 0, 0, 0, 0, 0, 0, 0, 0, 0]"
    by code_simp
  have frame: "le_bytes 4 (int (10 + length ([54, 93, 95, 88] @ [0] @ [9, 1, 0, 0, 0, 107]
                                      @ [3, 42, 0, 0, 0 :: byte])))
                 @ le_bytes 2 (op_value sample_env OP_CACHE_PUT)
                 @ le_bytes 8 (case Some 7 of None \<Rightarrow> random_query_id sample_env | Some i \<Rightarrow> i)
                 @ [54, 93, 95, 88] @ [0] @ [9, 1, 0, 0, 0, 107] @ [3, 42, 0, 0, 0]
      = [26, 0, 0, 0, 233, 3, 7, 0, 0, 0, 0, 0, 0, 0, 54, 93, 95, 88, 0,
         9, 1, 0, 0, 0, 107, 3, 42, 0, 0, 0]"
    by code_simp
  show ?thesis
    using a1 a2 a3 a4 sr cache_put_success [OF a1 a2 a3 a4 a5 a6 a7 a8]
    unfolding frame by simp
qed

text \<open>
  Claim C7. For every schema, operation code, value set and supplied query id \<open>qid\<close>
  that can be encoded, the request is produced, the canonical success response carrying
  \<open>qid\<close> corresponds to it and decodes to a response whose query id is \<open>qid\<close>, and
  every reply that corresponds to the request and that the parser accepts, against any
  response schema, decodes to a response whose query id is \<open>qid\<close>. The call sites
  hand the caller's query id to the query structure unchanged.
\<close>

theorem query_id_round_trip:
  assumes "list_all2
             (\<lambda>(name, t) bs. \<exists>v. map_of vals name = Some v \<and> type_enc e t v = Some bs)
             (following q) chunks"
    and "fits 2 (op_value e (op_code q))"
    and "fits 8 qid"
    and "fits 4 (int (10 + length (concat chunks)))"
    and "query_id q = Some qid"
  shows "\<exists>request.
     from_python e q vals = Inr request \<and>
     echoes request (success_response qid) \<and>
     (\<forall>s. parse e [] \<lparr>sent = s, incoming = success_response qid\<rparr>
            = Inr (\<lparr>frame_length = 12, response_query_id = qid, status_code = 0,
                    error_message = None, field_values = []\<rparr>,
                   \<lparr>sent = s, incoming = []\<rparr>)) \<and>
     (\<forall>fs conn resp conn'.
        echoes request (incoming conn) \<and> parse e fs conn = Inr (resp, conn') \<longrightarrow>
        response_query_id resp = qid) \<and>
     query_id (fst (cache_put_query cache key value key_hint value_hint binary (Some qid)))
       = Some qid \<and>
     query_id (fst (cache_get_configuration_query cache flags (Some qid))) = Some qid"
proof -
  let ?request = "le_bytes 4 (int (10 + length (concat chunks)))
                    @ le_bytes 2 (op_value e (op_code q)) @ le_bytes 8 qid @ concat chunks"
  have enc: "encode_fields e (following q) vals = Inr (concat chunks)"
    by (rule encode_fields_total [OF assms(1)])
  have fp: "from_python e q vals = Inr ?request"
    using from_python_total [OF enc] assms(2-5) by simp
  have field: "take 8 (drop 6 ?request) = le_bytes 8 qid"
    by simp
  have ec: "echoes ?request (success_response qid)"
    unfolding echoes_def field by (simp add: success_response_def)
  have ps: "parse e [] \<lparr>sent = s, incoming = success_response qid\<rparr>
            = Inr (\<lparr>frame_length = 12, response_query_id = qid, status_code = 0,
                    error_message = None, field_values = []\<rparr>,
                   \<lparr>sent = s, incoming = []\<rparr>)" for s
    using parse_success_response_fits
            [of "\<lparr>sent = s, incoming = success_response qid\<rparr>" qid e] assms(3)
    by simp
  have any: "response_query_id resp = qid"
    if e: "echoes ?request (incoming conn)" and p: "parse e fs conn = Inr (resp, conn')"
    for fs conn resp conn'
  proof -
    from parse_Inr [OF p] obtain payload where
      n: "12 \<le> decode_int (take 4 (incoming conn))" and
      pl: "payload = take (nat (decode_int (take 4 (incoming conn)))) (drop 4 (incoming conn))" and
      r: "response_query_id resp = decode_int (take 8 payload)"
      by blast
    have "take 8 payload = take 8 (drop 4 (incoming conn))"
      unfolding pl using n by (simp add: min_def)
    also have "\<dots> = le_bytes 8 qid"
      using e unfolding echoes_def field .
    finally have "response_query_id resp = decode_int (le_bytes 8 qid)"
      using r by simp
    also have "\<dots> = qid"
      by (rule decode_int_le_bytes [OF assms(3)]) simp
    finally show ?thesis .
  qed
  have src: "query_id (fst (cache_put_query cache key value key_hint value_hint binary
                              (Some qid))) = Some qid"
      "query_id (fst (cache_get_configuration_query cache flags (Some qid))) = Some qid"
    by (simp_all add: cache_put_query_def cache_get_configuration_query_def)
  show ?thesis
    using fp ec ps any src by blast
qed

theorem query_id_round_trip_witness:
  "from_python sample_env
     (fst (cache_get_query (CacheId 1) (PyInt 5) None False (Some (- 2))))
     (snd (cache_get_query (CacheId 1) (PyInt 5) None False (Some (- 2))))
    = Inr [20, 0, 0, 0, 232, 3, 254, 255, 255, 255, 255, 255, 255, 255,
           1, 0, 0, 0, 0, 3, 5, 0, 0, 0] \<and>
   echoes [20, 0, 0, 0, 232, 3, 254, 255, 255, 255, 255, 255, 255, 255,
           1, 0, 0, 0, 0, 3, 5, 0, 0, 0]
          [17, 0, 0, 0, 254, 255, 255, 255, 255, 255, 255, 255, 0, 0, 0, 0, 3, 42, 0, 0, 0] \<and>
   parse sample_env [(''value'', AnyDataObjectT)]
      \<lparr>sent = [], incoming = [17, 0, 0, 0, 254, 255, 255, 255, 255, 255, 255, 255,
                              0, 0, 0, 0, 3, 42, 0, 0, 0]\<rparr>
    = Inr (\<lparr>frame_length = 17, response_query_id = - 2, status_code = 0,
            error_message = None, field_values = [(''value'', PyInt 42)]\<rparr>,
           \<lparr>sent = [], incoming = []\<rparr>)"
proof -
  let ?q = "fst (cache_get_query (CacheId 1) (PyInt 5) None False (Some (- 2)))"
  let ?vals = "snd (cache_get_query (CacheId 1) (PyInt 5) None False (Some (- 2)))"
  let ?req = "[20, 0, 0, 0, 232, 3, 254, 255, 255, 255, 255, 255, 255, 255,
               1, 0, 0, 0, 0, 3, 5, 0, 0, 0] :: byte list"
  let ?conn = "\<lparr>sent = [], incoming = [17, 0, 0, 0, 254, 255, 255, 255, 255, 255, 255, 255,
                              0, 0, 0, 0, 3, 42, 0, 0, 0]\<rparr>"
  have h1: "list_all2
      (\<lambda>(name, t) bs. \<exists>v. map_of ?vals name = Some v \<and> type_enc sample_env t v = Some bs)
      (following ?q) [[1, 0, 0, 0], [0], [3, 5, 0, 0, 0]]"
    by (simp add: cache_get_query_def sample_env_def fits_def numeral_eq_Suc)
  have h2: "fits 2 (op_value sample_env (op_code ?q))"
    by (simp add: cache_get_query_def sample_env_def fits_def)
  have h3: "fits 8 (- 2)"
    by (simp add: fits_def)
  have h4: "fits 4 (int (10 + length (concat [[1, 0, 0, 0], [0], [3, 5, 0, 0, 0 :: byte]])))"
    by (simp add: fits_def)
  have h5: "query_id ?q = Some (- 2)"
    by (simp add: cache_get_query_def)
  have fp: "from_python sample_env ?q ?vals = Inr ?req"
    by code_simp
  have ec: "echoes ?req (incoming ?conn)"
    by (simp add: echoes_def)
  have p: "parse sample_env [(''value'', AnyDataObjectT)] ?conn
    = Inr (\<lparr>frame_length = 17, response_query_id = - 2, status_code = 0,
            error_message = None, field_values = [(''value'', PyInt 42)]\<rparr>,
           \<lparr>sent = [], incoming = []\<rparr>)"
    by code_simp
  from query_id_round_trip [OF h1 h2 h3 h4 h5] obtain request where
    r: "from_python sample_env ?q ?vals = Inr request" and
    a: "\<forall>fs conn resp conn'.
        echoes request (incoming conn) \<and> parse sample_env fs conn = Inr (resp, conn') \<longrightarrow>
        response_query_id resp = - 2"
    by blast
  from r fp have "request = ?req" by simp
  with a ec p have "response_query_id
      \<lparr>frame_length = 17, response_query_id = - 2, status_code = 0,
       error_message = None, field_values = [(''value'', PyInt 42)]\<rparr> = - 2"
    by blast
  then show ?thesis
    using fp ec p by simp
qed

section \<open>The status discipline of every operation\<close>
















section \<open>The cache-name hash\<close>

lemma hashcode_snoc:
  "hashcode (s @ [c]) = foldl (\<lambda>h u. 31 * h + of_nat u) (hashcode s) (utf16_units c)"
  by (simp add: hashcode_def)

lemma cache_id_range:
  "- (2 ^ 31) \<le> cache_id (CacheName s) \<and> cache_id (CacheName s) < 2 ^ 31"
  using sint_range_size [of "hashcode s"] by (simp add: word_size)

text \<open>
  Claim C5. The cache-name hash is a function of the name alone. The hash of the empty
  name is 0 and the hash of \<open>Hello\<close> is 69609650. It is the polynomial hash seeded with
  0: appending a character \<open>c\<close> of the basic plane turns the hash \<open>h\<close> into
  \<open>31 * h + c\<close> in 32-bit arithmetic, and a character above the basic plane
  contributes its two UTF-16 code units in turn. Read as a signed number the result is
  a 32-bit integer.
\<close>

theorem hashcode_polynomial:
  "cache_id (CacheName []) = 0 \<and>
   cache_id (CacheName (py_str ''Hello'')) = 69609650 \<and>
   hashcode [] = 0 \<and>
   (\<forall>s c. c < 0x10000 \<longrightarrow> hashcode (s @ [c]) = 31 * hashcode s + of_nat c) \<and>
   (\<forall>s c. hashcode (s @ [c])
      = foldl (\<lambda>h u. 31 * h + of_nat u) (hashcode s) (utf16_units c)) \<and>
   (\<forall>s. - (2 ^ 31) \<le> cache_id (CacheName s) \<and> cache_id (CacheName s) < 2 ^ 31)"
proof -
  have a: "cache_id (CacheName []) = 0"
    by (simp add: hashcode_def)
  have b: "cache_id (CacheName (py_str ''Hello'')) = 69609650"
    by (simp add: hashcode_def py_str_def utf16_units_def)
  have c: "hashcode [] = 0"
    by (simp add: hashcode_def)
  have d: "\<forall>s c. c < 0x10000 \<longrightarrow> hashcode (s @ [c]) = 31 * hashcode s + of_nat c"
    by (simp add: hashcode_snoc utf16_units_def)
  show ?thesis
    using a b c d hashcode_snoc cache_id_range by blast
qed

theorem hashcode_polynomial_witness:
  "(111::nat) < 0x10000 \<and>
   hashcode (py_str ''Hell'' @ [111]) = 31 * hashcode (py_str ''Hell'') + of_nat 111 \<and>
   cache_id (CacheName (py_str ''Hell'' @ [111])) = 69609650"
proof -
  have h: "(111::nat) < 0x10000" by simp
  have "hashcode (py_str ''Hell'' @ [111]) = 31 * hashcode (py_str ''Hell'') + of_nat 111"
    using hashcode_polynomial h by blast
  moreover have "cache_id (CacheName (py_str ''Hell'' @ [111])) = 69609650"
    by (simp add: hashcode_def py_str_def utf16_units_def)
  ultimately show ?thesis by simp
qed

section \<open>The request of a key-value operation\<close>

lemmas kv_query_defs =
  cache_put_query_def cache_get_query_def cache_get_all_query_def cache_put_all_query_def
  cache_contains_key_query_def cache_contains_keys_query_def cache_get_and_put_query_def
  cache_get_and_replace_query_def cache_get_and_remove_query_def
  cache_put_if_absent_query_def cache_get_and_put_if_absent_query_def
  cache_replace_query_def cache_replace_if_equals_query_def cache_clear_query_def
  cache_clear_key_query_def cache_clear_keys_query_def cache_remove_key_query_def
  cache_remove_if_equals_query_def cache_remove_keys_query_def cache_remove_all_query_def
  cache_get_size_query_def

text \<open>
  Claim C9. For every key-value operation and all its arguments, the value passed for
  the field \<open>flag\<close> of the request is 1 when \<open>binary\<close> is true and 0 when it is false,
  and \<open>flag\<close> is the second field of the request schema, of type \<open>Byte\<close>.
\<close>

theorem kv_flag_field:
  "map_of (snd (kv_query c)) ''flag'' = Some (PyInt (if kv_binary c then 1 else 0)) \<and>
   following (fst (kv_query c)) ! 1 = (''flag'', ByteT)"
  by (cases c) (simp_all add: kv_query_defs Let_def)

theorem kv_flag_field_witness:
  "map_of (snd (cache_put_query (CacheId 7) (PyInt 1) (PyInt 42) None None True None)) ''flag''
     = Some (PyInt 1) \<and>
   map_of (snd (cache_get_size_query (CacheId 7) (PyInt 0) False None)) ''flag''
     = Some (PyInt 0)"
  using kv_flag_field [of "CachePut (CacheId 7) (PyInt 1) (PyInt 42) None None True None"]
        kv_flag_field [of "CacheGetSize (CacheId 7) (PyInt 0) False None"]
  by simp

text \<open>
  Claim C10. \<^verbatim>\<open>cache_get_size\<close> normalises \<open>peek_modes\<close> before it builds the request:
  a value that is neither a list nor a tuple becomes the empty list when it equals 0 and
  the one-element list of itself otherwise; a list or a tuple is passed through
  unchanged. The result is the value of the third field, \<open>peek_modes\<close>.
\<close>

theorem cache_get_size_peek_modes:
  "(\<not> isinstance_list_tuple peek_modes \<and> py_eq_zero peek_modes \<longrightarrow>
      map_of (snd (cache_get_size_query cache peek_modes binary qid)) ''peek_modes''
        = Some (PyList [])) \<and>
   (\<not> isinstance_list_tuple peek_modes \<and> \<not> py_eq_zero peek_modes \<longrightarrow>
      map_of (snd (cache_get_size_query cache peek_modes binary qid)) ''peek_modes''
        = Some (PyList [peek_modes])) \<and>
   (isinstance_list_tuple peek_modes \<longrightarrow>
      map_of (snd (cache_get_size_query cache peek_modes binary qid)) ''peek_modes''
        = Some peek_modes) \<and>
   following (fst (cache_get_size_query cache peek_modes binary qid)) ! 2
     = (''peek_modes'', PeekModesT)"
  by (simp add: cache_get_size_query_def Let_def)

theorem cache_get_size_peek_modes_witness:
  "map_of (snd (cache_get_size_query (CacheId 7) (PyInt 0) False None)) ''peek_modes''
     = Some (PyList []) \<and>
   map_of (snd (cache_get_size_query (CacheId 7) (PyBool False) False None)) ''peek_modes''
     = Some (PyList []) \<and>
   map_of (snd (cache_get_size_query (CacheId 7) (PyInt 2) False None)) ''peek_modes''
     = Some (PyList [PyInt 2]) \<and>
   map_of (snd (cache_get_size_query (CacheId 7) (PyTuple [PyInt 1, PyInt 2]) False None))
       ''peek_modes''
     = Some (PyTuple [PyInt 1, PyInt 2]) \<and>
   map_of (snd (cache_get_size_query (CacheId 7) (PyList []) False None)) ''peek_modes''
     = Some (PyList [])"
  using cache_get_size_peek_modes [of "PyInt 0" "CacheId 7" False None]
        cache_get_size_peek_modes [of "PyBool False" "CacheId 7" False None]
        cache_get_size_peek_modes [of "PyInt 2" "CacheId 7" False None]
        cache_get_size_peek_modes [of "PyTuple [PyInt 1, PyInt 2]" "CacheId 7" False None]
        cache_get_size_peek_modes [of "PyList []" "CacheId 7" False None]
  by simp

end
